theory Spec2Isabelle
  imports Complex_Main
begin

section \<open>JavaScript helpers\<close>

text \<open>
  The truthiness tests the source relies on: \<open>a || b\<close> yields \<open>b\<close> when \<open>a\<close> is
  \<open>undefined\<close>, the number \<open>0\<close> or the empty string. An optional property is an
  \<open>option\<close>; numbers that count tokens are integers.
\<close>

definition or_num :: "int option \<Rightarrow> int \<Rightarrow> int" where
  "or_num x d = (case x of None \<Rightarrow> d | Some v \<Rightarrow> if v = 0 then d else v)"

definition truthy_str :: "string option \<Rightarrow> bool" where
  "truthy_str x = (case x of None \<Rightarrow> False | Some s \<Rightarrow> s \<noteq> [])"

definition or_str :: "string option \<Rightarrow> string option \<Rightarrow> string option" where
  "or_str x y = (if truthy_str x then x else y)"

text \<open>\<open>String.prototype.startsWith\<close> and \<open>String.prototype.includes\<close>.\<close>

fun startsWith :: "string \<Rightarrow> string \<Rightarrow> bool" where
  "startsWith s [] = True"
| "startsWith [] (p # ps) = False"
| "startsWith (c # cs) (p # ps) = (c = p \<and> startsWith cs ps)"

fun str_includes :: "string \<Rightarrow> string \<Rightarrow> bool" where
  "str_includes [] p = startsWith [] p"
| "str_includes (c # cs) p = (startsWith (c # cs) p \<or> str_includes cs p)"

text \<open>
  \<open>s.split(sep)\<close> for a one-character separator: the pieces of \<open>s\<close> between the
  occurrences of \<open>sep\<close>, never an empty array. \<open>arr[i]\<close> past the end is
  \<open>undefined\<close>.
\<close>

fun js_split :: "char \<Rightarrow> string \<Rightarrow> string list" where
  "js_split sep [] = [[]]"
| "js_split sep (c # cs) =
     (if c = sep then [] # js_split sep cs
      else (case js_split sep cs of
              [] \<Rightarrow> [[c]]
            | piece # pieces \<Rightarrow> (c # piece) # pieces))"

fun at_index :: "'a list \<Rightarrow> nat \<Rightarrow> 'a option" where
  "at_index [] i = None"
| "at_index (x # xs) 0 = Some x"
| "at_index (x # xs) (Suc i) = at_index xs i"

text \<open>\<open>arr.join(sep)\<close>.\<close>

fun js_join :: "string \<Rightarrow> string list \<Rightarrow> string" where
  "js_join sep [] = []"
| "js_join sep [x] = x"
| "js_join sep (x # y # ys) = x @ sep @ js_join sep (y # ys)"

section \<open>The canonical model (types.ts)\<close>

datatype Api =
  OpenaiCompletions | OpenaiResponses | OpenaiCodex | AnthropicMessages | GoogleGenerativeAi

datatype ReasoningEffort = Minimal | Low | Medium | High

datatype StopReason = StopR | LengthR | ToolUseR | ErrorR | AbortedR

datatype InputKind = TextInput | ImageInput

record Prices =
  price_input :: rat
  price_output :: rat
  price_cacheRead :: rat
  price_cacheWrite :: rat

record Model =
  model_id :: string
  model_name :: string
  model_api :: Api
  model_provider :: string
  model_baseUrl :: string
  model_reasoning :: bool
  model_input :: "InputKind list"
  model_cost :: Prices
  model_contextWindow :: int
  model_maxTokens :: int
  model_headers :: "(string \<times> string) list option"

text \<open>
  \<open>StreamOptions\<close>. The abort signal is kept as the flag the adapter reads from it
  (\<open>signal.aborted\<close>); the temperature is passed through untouched.
\<close>

record StreamOptions =
  opt_temperature :: "rat option"
  opt_maxTokens :: "int option"
  opt_signal :: "bool option"
  opt_apiKey :: "string option"
  opt_headers :: "(string \<times> string) list option"
  opt_baseUrlOverride :: "string option"

record SimpleStreamOptions = StreamOptions +
  opt_reasoning :: "ReasoningEffort option"

section \<open>The dispatcher's option mapping (stream.ts)\<close>

text \<open>
  The option shapes \<open>mapOptionsForApi\<close> builds, one per vendor API: the shared base
  and the reasoning fields that API takes.
\<close>

datatype ProviderOptions =
    AnthropicOptions StreamOptions "bool option" "int option"
  | OpenAICompletionsOptions StreamOptions "ReasoningEffort option"
  | OpenAIResponsesSimpleOptions StreamOptions "ReasoningEffort option"
  | OpenAICodexOptions StreamOptions "ReasoningEffort option"
  | GoogleOptions StreamOptions "(bool \<times> int) option"

fun base_options :: "ProviderOptions \<Rightarrow> StreamOptions" where
  "base_options (AnthropicOptions b _ _) = b"
| "base_options (OpenAICompletionsOptions b _) = b"
| "base_options (OpenAIResponsesSimpleOptions b _) = b"
| "base_options (OpenAICodexOptions b _) = b"
| "base_options (GoogleOptions b _) = b"

text \<open>The numeric thinking budget an option shape carries, when it carries one.\<close>

fun budget_tokens :: "ProviderOptions \<Rightarrow> int option" where
  "budget_tokens (AnthropicOptions _ _ budget) = budget"
| "budget_tokens (GoogleOptions _ thinking) = map_option snd thinking"
| "budget_tokens _ = None"

fun anthropicBudgets :: "ReasoningEffort \<Rightarrow> int" where
  "anthropicBudgets Minimal = 1024"
| "anthropicBudgets Low = 2048"
| "anthropicBudgets Medium = 8192"
| "anthropicBudgets High = 16384"

fun budgets_pro :: "ReasoningEffort \<Rightarrow> int" where
  "budgets_pro Minimal = 128"
| "budgets_pro Low = 2048"
| "budgets_pro Medium = 8192"
| "budgets_pro High = 32768"

fun budgets_flash :: "ReasoningEffort \<Rightarrow> int" where
  "budgets_flash Minimal = 128"
| "budgets_flash Low = 2048"
| "budgets_flash Medium = 8192"
| "budgets_flash High = 24576"

definition getGoogleBudget :: "Model \<Rightarrow> ReasoningEffort \<Rightarrow> int" where
  "getGoogleBudget model effort =
     (if str_includes (model_id model) ''2.5-pro'' then budgets_pro effort
      else if str_includes (model_id model) ''2.5-flash'' then budgets_flash effort
      else - 1)"

definition base_of :: "Model \<Rightarrow> SimpleStreamOptions option \<Rightarrow> string option \<Rightarrow> StreamOptions" where
  "base_of model options apiKey =
     \<lparr> opt_temperature = Option.bind options opt_temperature,
       opt_maxTokens =
         Some (or_num (Option.bind options opt_maxTokens) (min (model_maxTokens model) 32000)),
       opt_signal = Option.bind options opt_signal,
       opt_apiKey = or_str apiKey (Option.bind options opt_apiKey),
       opt_headers = Option.bind options opt_headers,
       opt_baseUrlOverride = Option.bind options opt_baseUrlOverride \<rparr>"

definition mapOptionsForApi ::
  "Model \<Rightarrow> SimpleStreamOptions option \<Rightarrow> string option \<Rightarrow> ProviderOptions" where
  "mapOptionsForApi model options apiKey =
     (let base = base_of model options apiKey;
          reasoning = Option.bind options opt_reasoning
      in case model_api model of
           AnthropicMessages \<Rightarrow>
             (case reasoning of
                None \<Rightarrow> AnthropicOptions base None None
              | Some effort \<Rightarrow> AnthropicOptions base (Some True) (Some (anthropicBudgets effort)))
         | OpenaiCompletions \<Rightarrow> OpenAICompletionsOptions base reasoning
         | OpenaiResponses \<Rightarrow> OpenAIResponsesSimpleOptions base reasoning
         | OpenaiCodex \<Rightarrow> OpenAICodexOptions base reasoning
         | GoogleGenerativeAi \<Rightarrow>
             (case reasoning of
                None \<Rightarrow> GoogleOptions base None
              | Some effort \<Rightarrow> GoogleOptions base (Some (True, getGoogleBudget model effort))))"

text \<open>
  \<open>getApiKey\<close>: the explicit registry first, then the provider's environment
  variable. The registry and the process environment are arguments.
\<close>

definition envMap :: "string \<Rightarrow> string option" where
  "envMap provider =
     map_of
       [(''openai'', ''OPENAI_API_KEY''),
        (''codex'', ''OPENAI_OAUTH_TOKEN''),
        (''anthropic'', ''ANTHROPIC_API_KEY''),
        (''google'', ''GEMINI_API_KEY''),
        (''groq'', ''GROQ_API_KEY''),
        (''cerebras'', ''CEREBRAS_API_KEY''),
        (''xai'', ''XAI_API_KEY''),
        (''openrouter'', ''OPENROUTER_API_KEY''),
        (''zai'', ''ZAI_API_KEY'')] provider"

definition getApiKey ::
  "(string \<Rightarrow> string option) \<Rightarrow> (string \<Rightarrow> string option) \<Rightarrow> string \<Rightarrow> string option" where
  "getApiKey apiKeys process_env provider =
     (if truthy_str (apiKeys provider) then apiKeys provider
      else (case envMap provider of
              None \<Rightarrow> None
            | Some envVar \<Rightarrow> if envVar = [] then None else process_env envVar))"

text \<open>
  \<open>streamSimple\<close> up to the call of \<open>stream\<close>: the error it throws when no key
  resolves, or the expanded options it hands on.
\<close>

definition streamSimple_options ::
  "(string \<Rightarrow> string option) \<Rightarrow> (string \<Rightarrow> string option) \<Rightarrow> Model \<Rightarrow>
   SimpleStreamOptions option \<Rightarrow> string + ProviderOptions" where
  "streamSimple_options apiKeys process_env model options =
     (let apiKey = or_str (Option.bind options opt_apiKey)
                     (getApiKey apiKeys process_env (model_provider model))
      in if \<not> truthy_str apiKey then Inl (''No API key for provider: '' @ model_provider model)
         else Inr (mapOptionsForApi model options apiKey))"

section \<open>Messages, content blocks and events (types.ts)\<close>

datatype json =
  JNull | JBool bool | JNum int | JStr string | JArr "json list" | JObj "(string \<times> json) list"

record Cost =
  cost_input :: rat
  cost_output :: rat
  cost_cacheRead :: rat
  cost_cacheWrite :: rat
  cost_total :: rat

record Usage =
  usage_input :: int
  usage_output :: int
  usage_cacheRead :: int
  usage_cacheWrite :: int
  usage_cost :: Cost

record ToolCall =
  tc_id :: string
  tc_name :: string
  tc_arguments :: json

text \<open>
  A content block of an assistant message: its canonical fields, by kind (the second
  field of a text or thinking block is its optional signature), and the further own
  properties the JavaScript object carries at run time, by name. A block of the
  canonical shape has none of the latter.
\<close>

datatype BlockBody =
    TextContent string "string option"
  | ThinkingContent string "string option"
  | ToolCallContent ToolCall

record Block =
  blk_body :: BlockBody
  blk_props :: "(string \<times> string) list"

definition canonical :: "Block \<Rightarrow> bool" where
  "canonical b = (blk_props b = [])"

definition is_toolCall :: "Block \<Rightarrow> bool" where
  "is_toolCall b = (case blk_body b of ToolCallContent _ \<Rightarrow> True | _ \<Rightarrow> False)"

text \<open>Reading and writing an own property; a missing one reads as \<open>undefined\<close>.\<close>

definition get_prop :: "Block \<Rightarrow> string \<Rightarrow> string" where
  "get_prop b k = (case map_of (blk_props b) k of None \<Rightarrow> ''undefined'' | Some v \<Rightarrow> v)"

fun assign :: "string \<Rightarrow> string \<Rightarrow> (string \<times> string) list \<Rightarrow> (string \<times> string) list" where
  "assign k v [] = [(k, v)]"
| "assign k v (p # ps) = (if fst p = k then (k, v) # ps else p # assign k v ps)"

definition set_prop :: "Block \<Rightarrow> string \<Rightarrow> string \<Rightarrow> Block" where
  "set_prop b k v = b\<lparr>blk_props := assign k v (blk_props b)\<rparr>"

definition delete_prop :: "string \<Rightarrow> Block \<Rightarrow> Block" where
  "delete_prop k b = b\<lparr>blk_props := filter (\<lambda>kv. fst kv \<noteq> k) (blk_props b)\<rparr>"

datatype UserPart = TextPart string | ImagePart string string

datatype UserContent = PlainText string | Parts "UserPart list"

record AssistantMessage =
  am_content :: "Block list"
  am_api :: Api
  am_provider :: string
  am_model :: string
  am_usage :: Usage
  am_stopReason :: StopReason
  am_errorMessage :: "string option"
  am_timestamp :: int

datatype Message =
    UserMessage UserContent int
  | AssistantMsg AssistantMessage
  | ToolResultMessage string string "UserPart list" bool int

record Tool =
  tool_name :: string
  tool_description :: string
  tool_parameters :: json

record Context =
  ctx_systemPrompt :: "string option"
  ctx_messages :: "Message list"
  ctx_tools :: "Tool list option"

text \<open>
  The canonical events. Every event of the source but the terminal ones also carries
  \<open>partial\<close>, a reference to the one message object the adapter keeps mutating; it is
  left out here, and the terminal events carry the message as it is when they are pushed.
\<close>

datatype Event =
    Start
  | TextStart int
  | TextDelta int string
  | TextEnd int string
  | ThinkingStart int
  | ThinkingDelta int string
  | ThinkingEnd int string
  | ToolcallStart int
  | ToolcallDelta int string
  | ToolcallEnd int ToolCall
  | Done StopReason AssistantMessage
  | ErrorEvent StopReason AssistantMessage

record EventStream =
  es_events :: "Event list"
  es_ended :: bool

section \<open>The vendor's wire protocol (OpenAI Responses)\<close>

record ReasoningItem =
  ri_id :: string
  ri_summary :: "string list"
  ri_encrypted_content :: "string option"

datatype ContentPart = OutputText string | Refusal string

text \<open>
  A message item may arrive without its \<open>content\<close> array: the handler of
  \<open>content_part.added\<close> allows for that, the later handlers read the array as it is.
  A reasoning item's \<open>summary\<close> is read through \<open>|| []\<close> or \<open>?.\<close> at every access, so an
  absent summary is the empty list.
\<close>

record MessageItem =
  mi_id :: string
  mi_content :: "ContentPart list option"

text \<open>
  A function-call item. Arguments that are absent read as the empty text: the handler
  of \<open>output_item.added\<close> takes \<open>item.arguments || ""\<close>, and \<open>JSON.parse\<close> throws on the
  absent and on the empty text alike.
\<close>

record FunctionCallItem =
  fc_id :: string
  fc_call_id :: string
  fc_name :: string
  fc_arguments :: string

datatype Item =
    Reasoning ReasoningItem
  | MessageItem MessageItem
  | FunctionCall FunctionCallItem
  | OtherItem string

datatype ResponseStatus =
  Completed | Incomplete | Failed | Cancelled | InProgress | Queued | UnknownStatus string

record ResponseUsage =
  ru_input_tokens :: "int option"
  ru_output_tokens :: "int option"
  ru_cached_tokens :: "int option"

record Response =
  resp_status :: "ResponseStatus option"
  resp_usage :: "ResponseUsage option"

datatype VendorEvent =
    OutputItemAdded Item
  | ReasoningSummaryPartAdded string
  | ReasoningSummaryTextDelta string
  | ReasoningSummaryPartDone
  | ContentPartAdded ContentPart
  | OutputTextDelta string
  | RefusalDelta string
  | FunctionCallArgumentsDelta string
  | OutputItemDone Item
  | ResponseCompleted "Response option"
  | VendorError "string option" string
  | ResponseFailed
  | OtherEvent string

text \<open>
  What the adapter sends to the vendor as input: the items \<open>convertMessages\<close> builds.
  \<open>ReplayedItem\<close> is the object \<open>JSON.parse\<close> returns for a thinking signature.
\<close>

datatype InputContent = InputText string | InputImage string

datatype InputItem =
    InputMessage string "InputContent list"
  | ReplayedItem ReasoningItem
  | OutputMessage string string
  | FunctionCallInput "string option" string string string
  | FunctionCallOutput string string

section \<open>Collaborators that are not part of the adapter\<close>

text \<open>
  The adapter calls helpers of other modules and built-ins of the language; they are
  arguments of the model. \<open>JSON.parse\<close> returns the parsed value or throws (\<open>Inl\<close>, with
  the error's message), and so does \<open>validateToolArguments\<close>; \<open>stringify_item\<close> and
  \<open>parse_item\<close> are \<open>JSON.stringify\<close> and \<open>JSON.parse\<close> on a vendor reasoning item, and
  \<open>random_suffix\<close> is the text \<open>Math.random\<close> contributes to a fresh message id.
\<close>

record Env =
  parseStreamingJson :: "string \<Rightarrow> json"
  JSON_parse :: "string \<Rightarrow> string + json"
  JSON_stringify :: "json \<Rightarrow> string"
  stringify_item :: "ReasoningItem \<Rightarrow> string"
  parse_item :: "string \<Rightarrow> string + ReasoningItem"
  validateToolArguments :: "Tool \<Rightarrow> ToolCall \<Rightarrow> string + json"
  sanitizeSurrogates :: "string \<Rightarrow> string"
  transformMessages :: "Message list \<Rightarrow> Model \<Rightarrow> Message list"
  random_suffix :: string

text \<open>
  Modelled from the spec: \<open>calculateCost\<close> of models.js, which is not among the
  sources. Each category costs its price per million tokens times its token count, and
  the total is the sum of the four; the token counts are left as they are.
\<close>

definition calculateCost :: "Model \<Rightarrow> Usage \<Rightarrow> Usage" where
  "calculateCost model usage =
     (let p = model_cost model;
          ci = price_input p / 1000000 * of_int (usage_input usage);
          co = price_output p / 1000000 * of_int (usage_output usage);
          cr = price_cacheRead p / 1000000 * of_int (usage_cacheRead usage);
          cw = price_cacheWrite p / 1000000 * of_int (usage_cacheWrite usage)
      in usage\<lparr>usage_cost :=
           \<lparr> cost_input = ci, cost_output = co, cost_cacheRead = cr, cost_cacheWrite = cw,
             cost_total = ci + co + cr + cw \<rparr>\<rparr>)"

section \<open>The OpenAI Responses adapter: one vendor event at a time\<close>

record OpenAIResponsesOptions = StreamOptions +
  opt_reasoningEffort :: "ReasoningEffort option"
  opt_reasoningSummary :: "string option"

text \<open>
  The adapter's mutable state: the message it owns, the vendor item it mirrors, and the
  cursor. \<open>currentBlock\<close> in the source is a reference to an element of
  \<open>output.content\<close>; here it is the position of that element, so that a write through
  the cursor is a write into the message.
\<close>

record State =
  st_output :: AssistantMessage
  st_currentItem :: "Item option"
  st_currentBlock :: "nat option"

definition blocks :: "State \<Rightarrow> Block list" where
  "blocks st = am_content (st_output st)"

definition blockIndex :: "State \<Rightarrow> int" where
  "blockIndex st = int (length (blocks st)) - 1"

definition current :: "State \<Rightarrow> Block option" where
  "current st = (case st_currentBlock st of None \<Rightarrow> None | Some i \<Rightarrow> at_index (blocks st) i)"

definition write_current :: "State \<Rightarrow> Block \<Rightarrow> State" where
  "write_current st b =
     (case st_currentBlock st of
        None \<Rightarrow> st
      | Some i \<Rightarrow> st\<lparr>st_output := (st_output st)\<lparr>am_content := (blocks st)[i := b]\<rparr>\<rparr>)"

definition open_block :: "State \<Rightarrow> Item \<Rightarrow> BlockBody \<Rightarrow> (string \<times> string) list \<Rightarrow> State" where
  "open_block st item body props =
     \<lparr> st_output = (st_output st)\<lparr>am_content := blocks st @ [\<lparr>blk_body = body, blk_props = props\<rparr>]\<rparr>,
       st_currentItem = Some item,
       st_currentBlock = Some (length (blocks st)) \<rparr>"

text \<open>
  What handling one vendor event yields: the state after it, the canonical events
  pushed, and the message of the error thrown, if one was.
\<close>

type_synonym Outcome = "State \<times> Event list \<times> string option"

definition nl2 :: string where
  "nl2 = [CHR 0x0A, CHR 0x0A]"

definition item_added :: "State \<Rightarrow> Item \<Rightarrow> Outcome" where
  "item_added st item =
     (case item of
        Reasoning r \<Rightarrow>
          (let st' = open_block st item (ThinkingContent [] None) []
           in (st', [ThinkingStart (blockIndex st')], None))
      | MessageItem m \<Rightarrow>
          (let st' = open_block st item (TextContent [] None) []
           in (st', [TextStart (blockIndex st')], None))
      | FunctionCall f \<Rightarrow>
          (let st' = open_block st item
                 (ToolCallContent \<lparr> tc_id = fc_call_id f @ ''|'' @ fc_id f, tc_name = fc_name f,
                                    tc_arguments = JObj [] \<rparr>)
                 [(''partialJson'', fc_arguments f)]
           in (st', [ToolcallStart (blockIndex st')], None))
      | OtherItem t \<Rightarrow> (st, [], None))"

definition summary_part_added :: "State \<Rightarrow> string \<Rightarrow> Outcome" where
  "summary_part_added st part =
     (case st_currentItem st of
        Some (Reasoning r) \<Rightarrow>
          (st\<lparr>st_currentItem := Some (Reasoning (r\<lparr>ri_summary := ri_summary r @ [part]\<rparr>))\<rparr>, [], None)
      | _ \<Rightarrow> (st, [], None))"

definition summary_delta :: "State \<Rightarrow> string \<Rightarrow> Outcome" where
  "summary_delta st d =
     (case st_currentItem st of
        Some (Reasoning r) \<Rightarrow>
          (case current st of
             Some b \<Rightarrow>
               (case blk_body b of
                  ThinkingContent t sg \<Rightarrow>
                    if ri_summary r = [] then (st, [], None)
                    else (write_current
                            (st\<lparr>st_currentItem := Some (Reasoning
                                (r\<lparr>ri_summary := butlast (ri_summary r) @ [last (ri_summary r) @ d]\<rparr>))\<rparr>)
                            (b\<lparr>blk_body := ThinkingContent (t @ d) sg\<rparr>),
                          [ThinkingDelta (blockIndex st) d], None)
                | _ \<Rightarrow> (st, [], None))
           | None \<Rightarrow> (st, [], None))
      | _ \<Rightarrow> (st, [], None))"

definition content_part_added :: "State \<Rightarrow> ContentPart \<Rightarrow> Outcome" where
  "content_part_added st part =
     (case st_currentItem st of
        Some (MessageItem m) \<Rightarrow>
          (st\<lparr>st_currentItem := Some (MessageItem
               (m\<lparr>mi_content := Some ((case mi_content m of None \<Rightarrow> [] | Some parts \<Rightarrow> parts)
                                          @ [part])\<rparr>))\<rparr>,
           [], None)
      | _ \<Rightarrow> (st, [], None))"

text \<open>The error thrown by reading a property of \<open>undefined\<close>.\<close>

definition TypeError :: string where
  "TypeError = ''TypeError: Cannot read properties of undefined''"

definition last_part :: "'a list \<Rightarrow> 'a option" where
  "last_part xs = (if xs = [] then None else Some (last xs))"

definition output_text_delta :: "State \<Rightarrow> string \<Rightarrow> Outcome" where
  "output_text_delta st d =
     (case st_currentItem st of
        Some (MessageItem m) \<Rightarrow>
          (case current st of
             Some b \<Rightarrow>
               (case blk_body b of
                  TextContent t sg \<Rightarrow>
                    (case mi_content m of
                       None \<Rightarrow> (st, [], Some TypeError)
                     | Some parts \<Rightarrow>
                         (case last_part parts of
                            Some (OutputText pt) \<Rightarrow>
                              (write_current
                                 (st\<lparr>st_currentItem := Some (MessageItem
                                     (m\<lparr>mi_content := Some (butlast parts @ [OutputText (pt @ d)])\<rparr>))\<rparr>)
                                 (b\<lparr>blk_body := TextContent (t @ d) sg\<rparr>),
                               [TextDelta (blockIndex st) d], None)
                          | _ \<Rightarrow> (st, [], None)))
                | _ \<Rightarrow> (st, [], None))
           | None \<Rightarrow> (st, [], None))
      | _ \<Rightarrow> (st, [], None))"

definition refusal_delta :: "State \<Rightarrow> string \<Rightarrow> Outcome" where
  "refusal_delta st d =
     (case st_currentItem st of
        Some (MessageItem m) \<Rightarrow>
          (case current st of
             Some b \<Rightarrow>
               (case blk_body b of
                  TextContent t sg \<Rightarrow>
                    (case mi_content m of
                       None \<Rightarrow> (st, [], Some TypeError)
                     | Some parts \<Rightarrow>
                         (case last_part parts of
                            Some (Refusal pt) \<Rightarrow>
                              (write_current
                                 (st\<lparr>st_currentItem := Some (MessageItem
                                     (m\<lparr>mi_content := Some (butlast parts @ [Refusal (pt @ d)])\<rparr>))\<rparr>)
                                 (b\<lparr>blk_body := TextContent (t @ d) sg\<rparr>),
                               [TextDelta (blockIndex st) d], None)
                          | _ \<Rightarrow> (st, [], None)))
                | _ \<Rightarrow> (st, [], None))
           | None \<Rightarrow> (st, [], None))
      | _ \<Rightarrow> (st, [], None))"

definition arguments_delta :: "Env \<Rightarrow> State \<Rightarrow> string \<Rightarrow> Outcome" where
  "arguments_delta env st d =
     (case st_currentItem st of
        Some (FunctionCall f) \<Rightarrow>
          (case current st of
             Some b \<Rightarrow>
               (case blk_body b of
                  ToolCallContent tc \<Rightarrow>
                    (let partialJson = get_prop b ''partialJson'' @ d
                     in (write_current st
                           (set_prop
                              (b\<lparr>blk_body := ToolCallContent
                                  (tc\<lparr>tc_arguments := parseStreamingJson env partialJson\<rparr>)\<rparr>)
                              ''partialJson'' partialJson),
                         [ToolcallDelta (blockIndex st) d], None))
                | _ \<Rightarrow> (st, [], None))
           | None \<Rightarrow> (st, [], None))
      | _ \<Rightarrow> (st, [], None))"

fun part_text :: "ContentPart \<Rightarrow> string" where
  "part_text (OutputText t) = t"
| "part_text (Refusal t) = t"

text \<open>
  The finished tool call of \<open>output_item.done\<close>: the arguments parsed strictly and,
  when the context declares a tool of that name, replaced by the validator's result.
\<close>

definition finished_toolCall :: "Env \<Rightarrow> Context \<Rightarrow> FunctionCallItem \<Rightarrow> string + ToolCall" where
  "finished_toolCall env ctx f =
     (case JSON_parse env (fc_arguments f) of
        Inl err \<Rightarrow> Inl err
      | Inr args \<Rightarrow>
          (let toolCall = \<lparr> tc_id = fc_call_id f @ ''|'' @ fc_id f, tc_name = fc_name f,
                            tc_arguments = args \<rparr>
           in case ctx_tools ctx of
                None \<Rightarrow> Inr toolCall
              | Some tools \<Rightarrow>
                  (case find (\<lambda>t. tool_name t = tc_name toolCall) tools of
                     None \<Rightarrow> Inr toolCall
                   | Some tool \<Rightarrow>
                       (case validateToolArguments env tool toolCall of
                          Inl err \<Rightarrow> Inl err
                        | Inr coerced \<Rightarrow> Inr (toolCall\<lparr>tc_arguments := coerced\<rparr>)))))"

definition item_done :: "Env \<Rightarrow> Context \<Rightarrow> State \<Rightarrow> Item \<Rightarrow> Outcome" where
  "item_done env ctx st item =
     (case item of
        Reasoning r \<Rightarrow>
          (case current st of
             Some b \<Rightarrow>
               (case blk_body b of
                  ThinkingContent t sg \<Rightarrow>
                    (let thinking = js_join nl2 (ri_summary r)
                     in ((write_current st
                            (b\<lparr>blk_body := ThinkingContent thinking (Some (stringify_item env r))\<rparr>))
                           \<lparr>st_currentBlock := None\<rparr>,
                         [ThinkingEnd (blockIndex st) thinking], None))
                | _ \<Rightarrow> (st, [], None))
           | None \<Rightarrow> (st, [], None))
      | MessageItem m \<Rightarrow>
          (case current st of
             Some b \<Rightarrow>
               (case blk_body b of
                  TextContent t sg \<Rightarrow>
                    (case mi_content m of
                       None \<Rightarrow> (st, [], Some TypeError)
                     | Some parts \<Rightarrow>
                         (let txt = concat (map part_text parts)
                          in ((write_current st (b\<lparr>blk_body := TextContent txt (Some (mi_id m))\<rparr>))
                                \<lparr>st_currentBlock := None\<rparr>,
                              [TextEnd (blockIndex st) txt], None)))
                | _ \<Rightarrow> (st, [], None))
           | None \<Rightarrow> (st, [], None))
      | FunctionCall f \<Rightarrow>
          (case finished_toolCall env ctx f of
             Inl err \<Rightarrow> (st, [], Some err)
           | Inr toolCall \<Rightarrow> (st, [ToolcallEnd (blockIndex st) toolCall], None))
      | OtherItem t \<Rightarrow> (st, [], None))"

definition mapStopReason :: "ResponseStatus option \<Rightarrow> string + StopReason" where
  "mapStopReason status =
     (case status of
        None \<Rightarrow> Inr StopR
      | Some Completed \<Rightarrow> Inr StopR
      | Some Incomplete \<Rightarrow> Inr LengthR
      | Some Failed \<Rightarrow> Inr ErrorR
      | Some Cancelled \<Rightarrow> Inr ErrorR
      | Some InProgress \<Rightarrow> Inr StopR
      | Some Queued \<Rightarrow> Inr StopR
      | Some (UnknownStatus s) \<Rightarrow>
          if s = [] then Inr StopR else Inl (''Unhandled stop reason: '' @ s))"

definition zero_cost :: Cost where
  "zero_cost = \<lparr> cost_input = 0, cost_output = 0, cost_cacheRead = 0, cost_cacheWrite = 0,
                 cost_total = 0 \<rparr>"

definition vendor_usage :: "ResponseUsage \<Rightarrow> Usage" where
  "vendor_usage u =
     (let cachedTokens = or_num (ru_cached_tokens u) 0
      in \<lparr> usage_input = or_num (ru_input_tokens u) 0 - cachedTokens,
           usage_output = or_num (ru_output_tokens u) 0,
           usage_cacheRead = cachedTokens,
           usage_cacheWrite = 0,
           usage_cost = zero_cost \<rparr>)"

definition response_completed :: "Model \<Rightarrow> State \<Rightarrow> Response option \<Rightarrow> Outcome" where
  "response_completed model st response =
     (let out0 = st_output st;
          out1 = (case Option.bind response resp_usage of
                    None \<Rightarrow> out0
                  | Some u \<Rightarrow> out0\<lparr>am_usage := vendor_usage u\<rparr>);
          out2 = out1\<lparr>am_usage := calculateCost model (am_usage out1)\<rparr>
      in case mapStopReason (Option.bind response resp_status) of
           Inl err \<Rightarrow> (st\<lparr>st_output := out2\<rparr>, [], Some err)
         | Inr reason \<Rightarrow>
             (st\<lparr>st_output := out2\<lparr>am_stopReason :=
                  (if list_ex is_toolCall (am_content out2) \<and> reason = StopR then ToolUseR
                   else reason)\<rparr>\<rparr>,
              [], None))"

fun step :: "Env \<Rightarrow> Model \<Rightarrow> Context \<Rightarrow> State \<Rightarrow> VendorEvent \<Rightarrow> Outcome" where
  "step env model ctx st (OutputItemAdded item) = item_added st item"
| "step env model ctx st (ReasoningSummaryPartAdded part) = summary_part_added st part"
| "step env model ctx st (ReasoningSummaryTextDelta d) = summary_delta st d"
| "step env model ctx st ReasoningSummaryPartDone = summary_delta st nl2"
| "step env model ctx st (ContentPartAdded part) = content_part_added st part"
| "step env model ctx st (OutputTextDelta d) = output_text_delta st d"
| "step env model ctx st (RefusalDelta d) = refusal_delta st d"
| "step env model ctx st (FunctionCallArgumentsDelta d) = arguments_delta env st d"
| "step env model ctx st (OutputItemDone item) = item_done env ctx st item"
| "step env model ctx st (ResponseCompleted response) = response_completed model st response"
| "step env model ctx st (VendorError code message) =
     (st, [], Some (''Error Code '' @ (case code of None \<Rightarrow> ''null'' | Some c \<Rightarrow> c) @ '': '' @ message))"
| "step env model ctx st ResponseFailed = (st, [], Some ''Unknown error'')"
| "step env model ctx st (OtherEvent t) = (st, [], None)"

text \<open>The \<open>for await\<close> loop: it stops at the first handler that throws.\<close>

fun process :: "Env \<Rightarrow> Model \<Rightarrow> Context \<Rightarrow> State \<Rightarrow> VendorEvent list \<Rightarrow> Outcome" where
  "process env model ctx st [] = (st, [], None)"
| "process env model ctx st (e # es) =
     (case step env model ctx st e of
        (st', pushed, Some err) \<Rightarrow> (st', pushed, Some err)
      | (st', pushed, None) \<Rightarrow>
          (case process env model ctx st' es of
             (st'', pushed', thrown) \<Rightarrow> (st'', pushed @ pushed', thrown)))"

section \<open>Converting a history back into vendor input\<close>

fun user_part :: "Env \<Rightarrow> UserPart \<Rightarrow> InputContent" where
  "user_part env (TextPart t) = InputText (sanitizeSurrogates env t)"
| "user_part env (ImagePart d mimeType) = InputImage (''data:'' @ mimeType @ '';base64,'' @ d)"

fun is_input_image :: "InputContent \<Rightarrow> bool" where
  "is_input_image (InputImage _) = True"
| "is_input_image (InputText _) = False"

fun is_image_part :: "UserPart \<Rightarrow> bool" where
  "is_image_part (ImagePart _ _) = True"
| "is_image_part (TextPart _) = False"

fun text_of_part :: "UserPart \<Rightarrow> string" where
  "text_of_part (TextPart t) = t"
| "text_of_part (ImagePart _ _) = []"

text \<open>
  One content block of an assistant message, in the order of the source's tests: a
  thinking block of a message that did not end in \<open>error\<close> is replayed from its
  signature when it has one; a text block always becomes an output message; a tool call
  of a message that did not end in \<open>error\<close> becomes a function call whose ids are the
  pieces of the block's id around \<open>|\<close>.
\<close>

definition convert_block :: "Env \<Rightarrow> StopReason \<Rightarrow> Block \<Rightarrow> string + InputItem list" where
  "convert_block env stopReason b =
     (case blk_body b of
        ThinkingContent t sg \<Rightarrow>
          if stopReason \<noteq> ErrorR then
            (case sg of
               None \<Rightarrow> Inr []
             | Some signature \<Rightarrow>
                 if signature = [] then Inr []
                 else (case parse_item env signature of
                         Inl err \<Rightarrow> Inl err
                       | Inr reasoningItem \<Rightarrow> Inr [ReplayedItem reasoningItem]))
          else Inr []
      | TextContent t sg \<Rightarrow>
          Inr [OutputMessage
                 (case sg of
                    None \<Rightarrow> ''msg_'' @ random_suffix env
                  | Some i \<Rightarrow> if i = [] then ''msg_'' @ random_suffix env else i)
                 (sanitizeSurrogates env t)]
      | ToolCallContent toolCall \<Rightarrow>
          if stopReason \<noteq> ErrorR then
            Inr [FunctionCallInput
                   (at_index (js_split (CHR ''|'') (tc_id toolCall)) 1)
                   (hd (js_split (CHR ''|'') (tc_id toolCall)))
                   (tc_name toolCall)
                   (JSON_stringify env (tc_arguments toolCall))]
          else Inr [])"

fun convert_blocks :: "Env \<Rightarrow> StopReason \<Rightarrow> Block list \<Rightarrow> string + InputItem list" where
  "convert_blocks env stopReason [] = Inr []"
| "convert_blocks env stopReason (b # bs) =
     (case convert_block env stopReason b of
        Inl err \<Rightarrow> Inl err
      | Inr items \<Rightarrow>
          (case convert_blocks env stopReason bs of
             Inl err \<Rightarrow> Inl err
           | Inr rest \<Rightarrow> Inr (items @ rest)))"

definition convert_message :: "Env \<Rightarrow> Model \<Rightarrow> Message \<Rightarrow> string + InputItem list" where
  "convert_message env model msg =
     (case msg of
        UserMessage (PlainText t) ts \<Rightarrow>
          Inr [InputMessage ''user'' [InputText (sanitizeSurrogates env t)]]
      | UserMessage (Parts ps) ts \<Rightarrow>
          (let content = map (user_part env) ps;
               filteredContent =
                 (if ImageInput \<notin> set (model_input model)
                  then filter (\<lambda>c. \<not> is_input_image c) content else content)
           in if filteredContent = [] then Inr []
              else Inr [InputMessage ''user'' filteredContent])
      | AssistantMsg m \<Rightarrow> convert_blocks env (am_stopReason m) (am_content m)
      | ToolResultMessage toolCallId toolName content isError ts \<Rightarrow>
          (let textResult =
                 js_join [CHR 0x0A] (map text_of_part (filter (\<lambda>c. \<not> is_image_part c) content));
               hasImages = list_ex is_image_part content;
               hasText = (textResult \<noteq> [])
           in Inr (FunctionCallOutput
                     (hd (js_split (CHR ''|'') toolCallId))
                     (sanitizeSurrogates env (if hasText then textResult else ''(see attached image)''))
                   # (if hasImages \<and> ImageInput \<in> set (model_input model)
                      then [InputMessage ''user''
                              (InputText ''Attached image(s) from tool result:''
                               # map (user_part env) (filter is_image_part content))]
                      else []))))"

fun convert_all :: "Env \<Rightarrow> Model \<Rightarrow> Message list \<Rightarrow> string + InputItem list" where
  "convert_all env model [] = Inr []"
| "convert_all env model (msg # msgs) =
     (case convert_message env model msg of
        Inl err \<Rightarrow> Inl err
      | Inr items \<Rightarrow>
          (case convert_all env model msgs of
             Inl err \<Rightarrow> Inl err
           | Inr rest \<Rightarrow> Inr (items @ rest)))"

definition convertMessages :: "Env \<Rightarrow> Model \<Rightarrow> Context \<Rightarrow> bool \<Rightarrow> string + InputItem list" where
  "convertMessages env model context skipSystemPrompt =
     (let transformedMessages = transformMessages env (ctx_messages context) model;
          system =
            (if truthy_str (ctx_systemPrompt context) \<and> \<not> skipSystemPrompt
             then [InputMessage ''user''
                     [InputText (sanitizeSurrogates env
                        (case ctx_systemPrompt context of Some t \<Rightarrow> t | None \<Rightarrow> []))]]
             else [])
      in case convert_all env model transformedMessages of
           Inl err \<Rightarrow> Inl err
         | Inr items \<Rightarrow> Inr (system @ items))"

section \<open>The OpenAI Responses adapter: one call\<close>

text \<open>
  What the network does during one call: the key in the process environment, whether
  opening the request fails, the vendor events the stream yields, whether reading the
  stream fails after them, and the clock. The state of the caller's abort signal when
  the adapter reads it is \<open>opt_signal\<close> of the options.
\<close>

record Transport =
  OPENAI_API_KEY :: "string option"
  create_error :: "string option"
  vendor_events :: "VendorEvent list"
  stream_error :: "string option"
  now :: int

record Client =
  client_apiKey :: string
  client_baseURL :: string

definition createClient ::
  "Model \<Rightarrow> OpenAIResponsesOptions option \<Rightarrow> string option \<Rightarrow> string + Client" where
  "createClient model options env_key =
     (let baseURL = (case or_str (Option.bind options opt_baseUrlOverride) (Some (model_baseUrl model)) of
                       Some u \<Rightarrow> u | None \<Rightarrow> [])
      in case Option.bind options opt_apiKey of
           Some k \<Rightarrow>
             if k \<noteq> [] then Inr \<lparr> client_apiKey = k, client_baseURL = baseURL \<rparr>
             else (case env_key of
                     Some e \<Rightarrow>
                       if e \<noteq> [] then Inr \<lparr> client_apiKey = e, client_baseURL = baseURL \<rparr>
                       else Inl ''OpenAI API key is required. Set OPENAI_API_KEY environment variable or pass it as an argument.''
                   | None \<Rightarrow> Inl ''OpenAI API key is required. Set OPENAI_API_KEY environment variable or pass it as an argument.'')
         | None \<Rightarrow>
             (case env_key of
                Some e \<Rightarrow>
                  if e \<noteq> [] then Inr \<lparr> client_apiKey = e, client_baseURL = baseURL \<rparr>
                  else Inl ''OpenAI API key is required. Set OPENAI_API_KEY environment variable or pass it as an argument.''
              | None \<Rightarrow> Inl ''OpenAI API key is required. Set OPENAI_API_KEY environment variable or pass it as an argument.''))"

text \<open>
  \<open>buildParams\<close>, as far as the request's \<open>input\<close>: the converted history and, for a
  reasoning model called with neither effort nor summary whose name starts with gpt-5,
  the extra prompt appended to it.
\<close>

definition buildParams_input ::
  "Env \<Rightarrow> Model \<Rightarrow> Context \<Rightarrow> OpenAIResponsesOptions option \<Rightarrow> string + InputItem list" where
  "buildParams_input env model context options =
     (let isChatGptBackend =
            (case Option.bind options opt_baseUrlOverride of
               None \<Rightarrow> False
             | Some u \<Rightarrow> str_includes u ''chatgpt.com'')
      in case convertMessages env model context False of
           Inl err \<Rightarrow> Inl err
         | Inr messages \<Rightarrow>
             if model_reasoning model
                \<and> Option.bind options opt_reasoningEffort = None
                \<and> \<not> truthy_str (Option.bind options opt_reasoningSummary)
                \<and> startsWith (model_name model) ''gpt-5''
             then Inr (messages @
                    [InputMessage (if isChatGptBackend then ''user'' else ''developer'')
                       [InputText ''# Juice: 0 !important'']])
             else Inr messages)"

definition zero_usage :: Usage where
  "zero_usage = \<lparr> usage_input = 0, usage_output = 0, usage_cacheRead = 0, usage_cacheWrite = 0,
                  usage_cost = zero_cost \<rparr>"

definition initial_output :: "Model \<Rightarrow> int \<Rightarrow> AssistantMessage" where
  "initial_output model ts =
     \<lparr> am_content = [], am_api = OpenaiResponses, am_provider = model_provider model,
       am_model = model_id model, am_usage = zero_usage, am_stopReason = StopR,
       am_errorMessage = None, am_timestamp = ts \<rparr>"

definition initial_state :: "AssistantMessage \<Rightarrow> State" where
  "initial_state output_msg =
     \<lparr> st_output = output_msg, st_currentItem = None, st_currentBlock = None \<rparr>"

definition signal_aborted :: "OpenAIResponsesOptions option \<Rightarrow> bool" where
  "signal_aborted options = (Option.bind options opt_signal = Some True)"

text \<open>
  The \<open>catch\<close> block: the property \<open>index\<close> is deleted from every block, the stop reason
  and the error text are set, and the message goes out in the one \<open>error\<close> event.
\<close>

definition caught :: "OpenAIResponsesOptions option \<Rightarrow> AssistantMessage \<Rightarrow> string \<Rightarrow> Event" where
  "caught options output_msg message =
     (let failed = output_msg
            \<lparr> am_content := map (delete_prop ''index'') (am_content output_msg),
              am_stopReason := (if signal_aborted options then AbortedR else ErrorR),
              am_errorMessage := Some message \<rparr>
      in ErrorEvent (am_stopReason failed) failed)"

text \<open>Everything that can throw before the \<open>start\<close> event is pushed.\<close>

definition connect ::
  "Env \<Rightarrow> Model \<Rightarrow> Context \<Rightarrow> OpenAIResponsesOptions option \<Rightarrow> Transport \<Rightarrow> string option" where
  "connect env model context options transport =
     (case createClient model options (OPENAI_API_KEY transport) of
        Inl err \<Rightarrow> Some err
      | Inr client \<Rightarrow>
          (case buildParams_input env model context options of
             Inl err \<Rightarrow> Some err
           | Inr params \<Rightarrow> create_error transport))"

text \<open>
  What ends the \<open>try\<close> block once the loop is over: the error a handler threw, else the
  error reading the stream threw, else the abort found after the loop, else the refusal
  to report a message whose reason is \<open>aborted\<close> or \<open>error\<close> as done.
\<close>

definition failure ::
  "OpenAIResponsesOptions option \<Rightarrow> Transport \<Rightarrow> State \<Rightarrow> string option \<Rightarrow> string option" where
  "failure options transport st thrown =
     (case thrown of
        Some err \<Rightarrow> Some err
      | None \<Rightarrow>
          (case stream_error transport of
             Some err \<Rightarrow> Some err
           | None \<Rightarrow>
               if signal_aborted options then Some ''Request was aborted''
               else if am_stopReason (st_output st) = AbortedR \<or> am_stopReason (st_output st) = ErrorR
               then Some ''An unkown error ocurred''
               else None))"

definition streamOpenAIResponses ::
  "Env \<Rightarrow> Model \<Rightarrow> Context \<Rightarrow> OpenAIResponsesOptions option \<Rightarrow> Transport \<Rightarrow> EventStream" where
  "streamOpenAIResponses env model context options transport =
     (let output_msg = initial_output model (now transport)
      in case connect env model context options transport of
           Some err \<Rightarrow> \<lparr> es_events = [caught options output_msg err], es_ended = True \<rparr>
         | None \<Rightarrow>
             (case process env model context (initial_state output_msg) (vendor_events transport) of
                (st, pushed, thrown) \<Rightarrow>
                  \<lparr> es_events = Start # pushed @
                      [case failure options transport st thrown of
                         Some err \<Rightarrow> caught options (st_output st) err
                       | None \<Rightarrow> Done (am_stopReason (st_output st)) (st_output st)],
                    es_ended = True \<rparr>))"

section \<open>Reading event sequences\<close>

fun start_index :: "Event \<Rightarrow> int option" where
  "start_index (TextStart i) = Some i"
| "start_index (ThinkingStart i) = Some i"
| "start_index (ToolcallStart i) = Some i"
| "start_index _ = None"

fun end_index :: "Event \<Rightarrow> int option" where
  "end_index (TextEnd i _) = Some i"
| "end_index (ThinkingEnd i _) = Some i"
| "end_index (ToolcallEnd i _) = Some i"
| "end_index _ = None"

fun is_terminal :: "Event \<Rightarrow> bool" where
  "is_terminal (Done _ _) = True"
| "is_terminal (ErrorEvent _ _) = True"
| "is_terminal _ = False"

text \<open>The content indices of the blocks opened, in the order they were opened.\<close>

fun start_indices :: "Event list \<Rightarrow> int list" where
  "start_indices [] = []"
| "start_indices (e # es) =
     (case start_index e of Some i \<Rightarrow> i # start_indices es | None \<Rightarrow> start_indices es)"

text \<open>
  At most one block is open at any instant: reading the events in order with the index
  of the open block at hand, a block starts only while none is open, that is, no new
  block starts before the end event of the previous one. An end event with the index of
  the open block closes it.
\<close>

fun no_overlap :: "int option \<Rightarrow> Event list \<Rightarrow> bool" where
  "no_overlap cur [] = True"
| "no_overlap cur (e # es) =
     (case start_index e of
        Some i \<Rightarrow> cur = None \<and> no_overlap (Some i) es
      | None \<Rightarrow>
          (case end_index e of
             Some i \<Rightarrow> no_overlap (if cur = Some i then None else cur) es
           | None \<Rightarrow> no_overlap cur es))"

text \<open>
  The kinds of vendor item the adapter opens a block for, and a vendor stream that
  finishes each such item, with an \<open>output_item.done\<close> of the same kind, before it adds
  the next: an item is added only while none is in progress, and the item in progress
  is over once a finished item of its kind arrives.
\<close>

datatype Kind = ThinkingKind | TextKind | ToolCallKind

fun item_kind :: "Item \<Rightarrow> Kind option" where
  "item_kind (Reasoning _) = Some ThinkingKind"
| "item_kind (MessageItem _) = Some TextKind"
| "item_kind (FunctionCall _) = Some ToolCallKind"
| "item_kind (OtherItem _) = None"

definition block_kind :: "Block \<Rightarrow> Kind" where
  "block_kind b =
     (case blk_body b of
        ThinkingContent _ _ \<Rightarrow> ThinkingKind
      | TextContent _ _ \<Rightarrow> TextKind
      | ToolCallContent _ \<Rightarrow> ToolCallKind)"

fun items_finished :: "Kind option \<Rightarrow> VendorEvent list \<Rightarrow> bool" where
  "items_finished cur [] = True"
| "items_finished cur (OutputItemAdded item # es) =
     (case item_kind item of
        None \<Rightarrow> items_finished cur es
      | Some k \<Rightarrow> cur = None \<and> items_finished (Some k) es)"
| "items_finished cur (OutputItemDone item # es) =
     (case item_kind item of
        None \<Rightarrow> items_finished cur es
      | Some k \<Rightarrow> items_finished (if cur = Some k then None else cur) es)"
| "items_finished cur (e # es) = items_finished cur es"

text \<open>
  The kind of block a vendor delta event is for, and the kinds of the block under the
  cursor and of the mirrored vendor item.
\<close>

fun delta_kind :: "VendorEvent \<Rightarrow> Kind option" where
  "delta_kind (ReasoningSummaryTextDelta _) = Some ThinkingKind"
| "delta_kind (OutputTextDelta _) = Some TextKind"
| "delta_kind (RefusalDelta _) = Some TextKind"
| "delta_kind (FunctionCallArgumentsDelta _) = Some ToolCallKind"
| "delta_kind _ = None"

definition cursor_kind :: "State \<Rightarrow> Kind option" where
  "cursor_kind st = map_option block_kind (current st)"

definition mirrored_kind :: "State \<Rightarrow> Kind option" where
  "mirrored_kind st = Option.bind (st_currentItem st) item_kind"

fun is_completed :: "VendorEvent \<Rightarrow> bool" where
  "is_completed (ResponseCompleted _) = True"
| "is_completed _ = False"

fun adds_function_call :: "VendorEvent \<Rightarrow> bool" where
  "adds_function_call (OutputItemAdded (FunctionCall _)) = True"
| "adds_function_call _ = False"

text \<open>The block left open, if any, after a sequence of events.\<close>

fun open_after :: "int option \<Rightarrow> Event list \<Rightarrow> int option" where
  "open_after cur [] = cur"
| "open_after cur (e # es) =
     (case start_index e of
        Some i \<Rightarrow> open_after (Some i) es
      | None \<Rightarrow>
          (case end_index e of
             Some i \<Rightarrow> open_after (if cur = Some i then None else cur) es
           | None \<Rightarrow> open_after cur es))"

text \<open>
  How the adapter's cursor relates to the vendor item in progress: while an item of a
  kind is in progress, the cursor is on the last block, that block is of this kind, and
  no other block is open; between items no block is open.
\<close>

definition synced :: "Kind option \<Rightarrow> State \<Rightarrow> int option \<Rightarrow> bool" where
  "synced cur st opn =
     (case cur of
        None \<Rightarrow> opn = None
      | Some k \<Rightarrow>
          blocks st \<noteq> [] \<and> st_currentBlock st = Some (length (blocks st) - 1)
          \<and> block_kind (last (blocks st)) = k
          \<and> (opn = None \<or> opn = Some (blockIndex st)))"

definition kinds :: "State \<Rightarrow> Kind list" where
  "kinds st = map block_kind (blocks st)"

section \<open>Sample inputs\<close>

definition sample_model :: "Api \<Rightarrow> string \<Rightarrow> int \<Rightarrow> Model" where
  "sample_model a ident cap =
     \<lparr> model_id = ident, model_name = ident, model_api = a, model_provider = ''openai'',
       model_baseUrl = ''https://api.example.test/v1'', model_reasoning = True,
       model_input = [TextInput],
       model_cost = \<lparr> price_input = 2, price_output = 8, price_cacheRead = 1 / 2,
                      price_cacheWrite = 0 \<rparr>,
       model_contextWindow = 200000, model_maxTokens = cap, model_headers = None \<rparr>"

definition sample_options :: "int option \<Rightarrow> ReasoningEffort option \<Rightarrow> SimpleStreamOptions" where
  "sample_options cap effort =
     \<lparr> opt_temperature = None, opt_maxTokens = cap, opt_signal = None,
       opt_apiKey = Some ''sk-test'', opt_headers = None, opt_baseUrlOverride = None,
       opt_reasoning = effort \<rparr>"

text \<open>
  The collaborators' answers on the texts that occur in the samples: the arguments
  \<open>{"q":"x"}\<close> and the serialised form of a reasoning item, here its id and summary
  between separators.
\<close>

definition sample_env :: Env where
  \<open>sample_env =
     \<lparr> parseStreamingJson =
         (\<lambda>s. if s = ''{"q":"x"}'' then JObj [(''q'', JStr ''x'')] else JObj []),
       JSON_parse =
         (\<lambda>s. if s = ''{"q":"x"}'' then Inr (JObj [(''q'', JStr ''x'')])
              else Inl ''Unexpected end of JSON input''),
       JSON_stringify = (\<lambda>j. if j = JObj [(''q'', JStr ''x'')] then ''{"q":"x"}'' else ''{}''),
       stringify_item = (\<lambda>r. ''{"id":"rs_1","summary":["plan"]}''),
       parse_item =
         (\<lambda>s. if s = ''{"id":"rs_1","summary":["plan"]}''
              then Inr \<lparr> ri_id = ''rs_1'', ri_summary = [''plan''], ri_encrypted_content = None \<rparr>
              else Inl ''Unexpected token''),
       validateToolArguments = (\<lambda>tool toolCall. Inr (tc_arguments toolCall)),
       sanitizeSurrogates = (\<lambda>s. s),
       transformMessages = (\<lambda>msgs model. msgs),
       random_suffix = ''k3j9x2'' \<rparr>\<close>

definition sample_reasoning :: ReasoningItem where
  "sample_reasoning = \<lparr> ri_id = ''rs_1'', ri_summary = [''plan''], ri_encrypted_content = None \<rparr>"

definition sample_call :: "string \<Rightarrow> string \<Rightarrow> string \<Rightarrow> FunctionCallItem" where
  "sample_call call_id item_id args =
     \<lparr> fc_id = item_id, fc_call_id = call_id, fc_name = ''lookup'', fc_arguments = args \<rparr>"

definition sample_message :: "ContentPart list \<Rightarrow> MessageItem" where
  "sample_message parts = \<lparr> mi_id = ''msg_1'', mi_content = Some parts \<rparr>"

definition sample_response :: "ResponseStatus \<Rightarrow> int \<Rightarrow> int \<Rightarrow> int option \<Rightarrow> Response" where
  "sample_response status i out cached =
     \<lparr> resp_status = Some status,
       resp_usage = Some \<lparr> ru_input_tokens = Some i, ru_output_tokens = Some out,
                          ru_cached_tokens = cached \<rparr> \<rparr>"

text \<open>
  Scenario A of the specification: a message item with the text Hello, then a function
  call \<open>lookup\<close> whose arguments arrive in two deltas, then completion.
\<close>

definition scenario_A :: "VendorEvent list" where
  \<open>scenario_A =
     [OutputItemAdded (MessageItem (sample_message [])),
      ContentPartAdded (OutputText []),
      OutputTextDelta ''Hello'',
      OutputItemDone (MessageItem (sample_message [OutputText ''Hello''])),
      OutputItemAdded (FunctionCall (sample_call ''call_1'' ''fc_1'' [])),
      FunctionCallArgumentsDelta ''{"q":'',
      FunctionCallArgumentsDelta ''"x"}'',
      OutputItemDone (FunctionCall (sample_call ''call_1'' ''fc_1'' ''{"q":"x"}'')),
      ResponseCompleted (Some (sample_response Completed 10 5 None))]\<close>

text \<open>The message the adapter has built when scenario A completes.\<close>

definition scenario_A_message :: "Env \<Rightarrow> Model \<Rightarrow> AssistantMessage" where
  \<open>scenario_A_message env model =
     (initial_output model 0)
       \<lparr> am_content :=
           [\<lparr> blk_body = TextContent ''Hello'' (Some ''msg_1''), blk_props = [] \<rparr>,
            \<lparr> blk_body = ToolCallContent
                 \<lparr> tc_id = ''call_1|fc_1'', tc_name = ''lookup'',
                   tc_arguments = parseStreamingJson env ''{"q":"x"}'' \<rparr>,
              blk_props = [(''partialJson'', ''{"q":"x"}'')] \<rparr>],
         am_usage := calculateCost model
           \<lparr> usage_input = 10, usage_output = 5, usage_cacheRead = 0, usage_cacheWrite = 0,
             usage_cost = zero_cost \<rparr>,
         am_stopReason := ToolUseR \<rparr>\<close>

definition call_options :: "bool option \<Rightarrow> OpenAIResponsesOptions" where
  "call_options sig =
     \<lparr> opt_temperature = None, opt_maxTokens = None, opt_signal = sig,
       opt_apiKey = Some ''sk-test'', opt_headers = None, opt_baseUrlOverride = None,
       opt_reasoningEffort = None, opt_reasoningSummary = None \<rparr>"

definition wire :: "VendorEvent list \<Rightarrow> Transport" where
  "wire evs =
     \<lparr> OPENAI_API_KEY = None, create_error = None, vendor_events = evs, stream_error = None,
       now = 0 \<rparr>"

definition no_context :: Context where
  "no_context = \<lparr> ctx_systemPrompt = None, ctx_messages = [], ctx_tools = None \<rparr>"

definition gpt :: Model where
  "gpt = sample_model OpenaiResponses ''gpt-4o'' 8192"

text \<open>
  A thinking block as the adapter leaves it after the reasoning item of the samples, a
  message that holds it, and a history that holds the message.
\<close>

definition thinking_block :: Block where
  \<open>thinking_block =
     \<lparr> blk_body = ThinkingContent ''plan'' (Some ''{"id":"rs_1","summary":["plan"]}''),
       blk_props = [] \<rparr>\<close>

definition thinking_message :: "StopReason \<Rightarrow> string option \<Rightarrow> AssistantMessage" where
  "thinking_message stopReason err =
     (initial_output gpt 0)
       \<lparr> am_content := [thinking_block], am_stopReason := stopReason, am_errorMessage := err \<rparr>"

definition history :: "AssistantMessage \<Rightarrow> Context" where
  "history msg = \<lparr> ctx_systemPrompt = None, ctx_messages = [AssistantMsg msg], ctx_tools = None \<rparr>"



section \<open>Properties of the option mapping\<close>

lemma base_options_mapOptionsForApi:
  "base_options (mapOptionsForApi model options apiKey) = base_of model options apiKey"
  by (simp add: mapOptionsForApi_def Let_def split: Api.splits option.splits)

text \<open>
  Claim C7, as the code has it: the \<open>maxTokens\<close> that \<open>streamSimple\<close> places into the
  expanded options is the caller's value whenever the caller gives one that is not
  zero, whatever the model's ceiling; only when the caller gives none (or zero) is it
  the minimum of the model's ceiling and 32000.
\<close>

theorem streamSimple_maxTokens:
  assumes "streamSimple_options apiKeys process_env model options = Inr expanded"
  shows "opt_maxTokens (base_options expanded) =
           Some (case Option.bind options opt_maxTokens of
                   None \<Rightarrow> min (model_maxTokens model) 32000
                 | Some n \<Rightarrow> if n = 0 then min (model_maxTokens model) 32000 else n)"
proof -
  from assms obtain k where "expanded = mapOptionsForApi model options k"
    by (auto simp: streamSimple_options_def Let_def split: if_splits)
  then show ?thesis
    by (simp add: base_options_mapOptionsForApi base_of_def or_num_def split: option.splits)
qed

theorem streamSimple_maxTokens_witness:
  "streamSimple_options Map.empty Map.empty (sample_model OpenaiResponses ''gpt-5'' 128000)
       (Some (sample_options None None))
     = Inr (OpenAIResponsesSimpleOptions
         \<lparr> opt_temperature = None, opt_maxTokens = Some 32000, opt_signal = None,
           opt_apiKey = Some ''sk-test'', opt_headers = None, opt_baseUrlOverride = None \<rparr> None)
   \<and> opt_maxTokens (base_options (OpenAIResponsesSimpleOptions
         \<lparr> opt_temperature = None, opt_maxTokens = Some 32000, opt_signal = None,
           opt_apiKey = Some ''sk-test'', opt_headers = None, opt_baseUrlOverride = None \<rparr> None))
     = Some 32000"
proof -
  have run: "streamSimple_options Map.empty Map.empty (sample_model OpenaiResponses ''gpt-5'' 128000)
       (Some (sample_options None None))
     = Inr (OpenAIResponsesSimpleOptions
         \<lparr> opt_temperature = None, opt_maxTokens = Some 32000, opt_signal = None,
           opt_apiKey = Some ''sk-test'', opt_headers = None, opt_baseUrlOverride = None \<rparr> None)"
    by (simp add: streamSimple_options_def mapOptionsForApi_def base_of_def sample_model_def
        sample_options_def or_num_def or_str_def truthy_str_def Let_def)
  show ?thesis
    using streamSimple_maxTokens [OF run] run
    by (simp add: sample_model_def sample_options_def)
qed

text \<open>
  Claim C7 as the specification words it fails: a caller asking for 100000 tokens of a
  model whose ceiling is 8192 gets 100000, not the minimum 8192.
\<close>

theorem streamSimple_maxTokens_counterexample:
  "map_sum id (\<lambda>expanded. opt_maxTokens (base_options expanded))
     (streamSimple_options Map.empty Map.empty (sample_model OpenaiResponses ''gpt-4o'' 8192)
        (Some (sample_options (Some 100000) None)))
     = Inr (Some 100000)
   \<and> min 100000 (model_maxTokens (sample_model OpenaiResponses ''gpt-4o'' 8192)) = 8192"
  by (simp add: streamSimple_options_def mapOptionsForApi_def base_of_def sample_model_def
      sample_options_def or_num_def or_str_def truthy_str_def Let_def)

text \<open>
  Claim C8: the budget mapping has no failing branch. Effort medium maps to 8192 in the
  Anthropic table and for Google models whose id contains 2.5-pro or 2.5-flash; a
  Google model whose id contains neither gets the dynamic sentinel -1 at every effort.
\<close>

theorem reasoning_budget_mapping:
  "anthropicBudgets Medium = 8192
   \<and> (model_api model = AnthropicMessages \<longrightarrow>
        budget_tokens (mapOptionsForApi model (Some (options\<lparr>opt_reasoning := Some Medium\<rparr>)) apiKey)
          = Some 8192)
   \<and> (str_includes (model_id model) ''2.5-pro'' \<or> str_includes (model_id model) ''2.5-flash'' \<longrightarrow>
        getGoogleBudget model Medium = 8192
        \<and> (model_api model = GoogleGenerativeAi \<longrightarrow>
             budget_tokens (mapOptionsForApi model (Some (options\<lparr>opt_reasoning := Some Medium\<rparr>)) apiKey)
               = Some 8192))
   \<and> (\<not> str_includes (model_id model) ''2.5-pro'' \<and> \<not> str_includes (model_id model) ''2.5-flash'' \<longrightarrow>
        (\<forall>effort. getGoogleBudget model effort = - 1
           \<and> (model_api model = GoogleGenerativeAi \<longrightarrow>
                budget_tokens (mapOptionsForApi model (Some (options\<lparr>opt_reasoning := Some effort\<rparr>)) apiKey)
                  = Some (- 1))))"
  by (simp add: mapOptionsForApi_def getGoogleBudget_def Let_def)

theorem reasoning_budget_mapping_witness:
  "budget_tokens (mapOptionsForApi (sample_model AnthropicMessages ''claude-sonnet-4'' 64000)
      (Some (sample_options None (Some Medium))) None) = Some 8192
   \<and> budget_tokens (mapOptionsForApi (sample_model GoogleGenerativeAi ''gemini-2.5-pro'' 65536)
      (Some (sample_options None (Some Medium))) None) = Some 8192
   \<and> budget_tokens (mapOptionsForApi (sample_model GoogleGenerativeAi ''gemini-2.5-flash-lite'' 65536)
      (Some (sample_options None (Some Medium))) None) = Some 8192
   \<and> budget_tokens (mapOptionsForApi (sample_model GoogleGenerativeAi ''gemini-1.5-pro'' 8192)
      (Some (sample_options None (Some High))) None) = Some (- 1)"
proof -
  have a: "model_api (sample_model AnthropicMessages ''claude-sonnet-4'' 64000) = AnthropicMessages"
    by (simp add: sample_model_def)
  have p: "str_includes (model_id (sample_model GoogleGenerativeAi ''gemini-2.5-pro'' 65536)) ''2.5-pro''"
    by (simp add: sample_model_def)
  have f: "str_includes (model_id (sample_model GoogleGenerativeAi ''gemini-2.5-flash-lite'' 65536)) ''2.5-flash''"
    by (simp add: sample_model_def)
  have u: "\<not> str_includes (model_id (sample_model GoogleGenerativeAi ''gemini-1.5-pro'' 8192)) ''2.5-pro''
         \<and> \<not> str_includes (model_id (sample_model GoogleGenerativeAi ''gemini-1.5-pro'' 8192)) ''2.5-flash''"
    by (simp add: sample_model_def)
  have g: "\<And>i c. model_api (sample_model GoogleGenerativeAi i c) = GoogleGenerativeAi"
    by (simp add: sample_model_def)
  have upd: "\<And>e. (sample_options None None)\<lparr>opt_reasoning := Some e\<rparr> = sample_options None (Some e)"
    by (simp add: sample_options_def)
  show ?thesis
    using reasoning_budget_mapping
        [of "sample_model AnthropicMessages ''claude-sonnet-4'' 64000" "sample_options None None" None]
      reasoning_budget_mapping
        [of "sample_model GoogleGenerativeAi ''gemini-2.5-pro'' 65536" "sample_options None None" None]
      reasoning_budget_mapping
        [of "sample_model GoogleGenerativeAi ''gemini-2.5-flash-lite'' 65536" "sample_options None None" None]
      reasoning_budget_mapping
        [of "sample_model GoogleGenerativeAi ''gemini-1.5-pro'' 8192" "sample_options None None" None]
      a p f u g upd
    by metis
qed

section \<open>Properties of the adapter\<close>

subsection \<open>Content indices and open blocks\<close>

lemmas handler_defs =
  item_added_def summary_part_added_def summary_delta_def content_part_added_def
  output_text_delta_def refusal_delta_def arguments_delta_def item_done_def
  response_completed_def

lemma blocks_open_block [simp]:
  "blocks (open_block st item body props) = blocks st @ [\<lparr>blk_body = body, blk_props = props\<rparr>]"
  by (simp add: open_block_def blocks_def)

lemma blocks_write_current [simp]:
  "length (blocks (write_current st b)) = length (blocks st)"
  by (simp add: write_current_def blocks_def split: option.splits)

lemma blocks_item_update [simp]: "blocks (st\<lparr>st_currentItem := x\<rparr>) = blocks st"
  by (simp add: blocks_def)

lemma blocks_cursor_update [simp]: "blocks (st\<lparr>st_currentBlock := x\<rparr>) = blocks st"
  by (simp add: blocks_def)

lemma step_starts:
  assumes "step env model ctx st e = (st', pushed, thrown)"
  shows "start_indices pushed = map int [length (blocks st) ..< length (blocks st')]"
  using assms
  by (cases e)
    (auto simp: handler_defs Let_def blockIndex_def blocks_def write_current_def open_block_def
      split: option.splits Item.splits BlockBody.splits ContentPart.splits sum.splits if_splits)


lemma step_grows:
  assumes "step env model ctx st e = (st', pushed, thrown)"
  shows "length (blocks st) \<le> length (blocks st')"
  using assms
  by (cases e)
    (auto simp: handler_defs Let_def blocks_def write_current_def open_block_def
      split: option.splits Item.splits BlockBody.splits ContentPart.splits sum.splits if_splits)

lemma start_indices_append [simp]:
  "start_indices (xs @ ys) = start_indices xs @ start_indices ys"
  by (induction xs) (auto split: option.splits)

lemma upt_split: "a \<le> b \<Longrightarrow> b \<le> c \<Longrightarrow> [a ..< b] @ [b ..< c] = [a ..< c]"
  by (metis le_Suc_ex upt_add_eq_append)

lemma process_starts:
  assumes "process env model ctx st es = (st', pushed, thrown)"
  shows "length (blocks st) \<le> length (blocks st')
         \<and> start_indices pushed = map int [length (blocks st) ..< length (blocks st')]"
  using assms
proof (induction es arbitrary: st st' pushed thrown)
  case Nil
  then show ?case by simp
next
  case (Cons e es)
  obtain st1 p1 t1 where s1: "step env model ctx st e = (st1, p1, t1)"
    by (cases "step env model ctx st e") auto
  note g1 = step_grows [OF s1] and i1 = step_starts [OF s1]
  show ?case
  proof (cases t1)
    case (Some err)
    with Cons.prems s1 have "st' = st1" "pushed = p1" by auto
    with g1 i1 show ?thesis by simp
  next
    case None
    obtain st2 p2 t2 where s2: "process env model ctx st1 es = (st2, p2, t2)"
      by (cases "process env model ctx st1 es") auto
    with Cons.prems s1 None have eq: "st' = st2" "pushed = p1 @ p2" by auto
    from Cons.IH [OF s2]
    have g2: "length (blocks st1) \<le> length (blocks st2)"
      and i2: "start_indices p2 = map int [length (blocks st1) ..< length (blocks st2)]"
      by auto
    have "start_indices (p1 @ p2)
            = map int ([length (blocks st) ..< length (blocks st1)]
                       @ [length (blocks st1) ..< length (blocks st2)])"
      using i1 i2 by simp
    also have "\<dots> = map int [length (blocks st) ..< length (blocks st2)]"
      using upt_split [OF g1 g2] by simp
    finally show ?thesis using eq g1 g2 by simp
  qed
qed

lemma start_indices_stream:
  "start_indices (es_events (streamOpenAIResponses env model ctx options transport))
     = map int [0 ..< length (start_indices
         (es_events (streamOpenAIResponses env model ctx options transport)))]"
proof (cases "connect env model ctx options transport")
  case (Some err)
  then show ?thesis
    by (simp add: streamOpenAIResponses_def caught_def Let_def)
next
  case None
  obtain st pushed thrown where p:
    "process env model ctx (initial_state (initial_output model (now transport)))
       (vendor_events transport) = (st, pushed, thrown)"
    by (cases "process env model ctx (initial_state (initial_output model (now transport)))
       (vendor_events transport)") auto
  have "start_indices pushed = map int [0 ..< length (blocks st)]"
    using process_starts [OF p] by (simp add: initial_state_def initial_output_def blocks_def)
  then have "start_indices (es_events (streamOpenAIResponses env model ctx options transport))
               = map int [0 ..< length (blocks st)]"
    using None p
    by (simp add: streamOpenAIResponses_def Let_def caught_def split: option.splits)
  then show ?thesis by simp
qed


lemma no_overlap_append:
  "no_overlap cur (xs @ ys) = (no_overlap cur xs \<and> no_overlap (open_after cur xs) ys)"
  by (induction xs arbitrary: cur) (auto split: option.splits)

lemma at_index_nth: "i < length xs \<Longrightarrow> at_index xs i = Some (xs ! i)"
proof (induction xs arbitrary: i)
  case Nil
  then show ?case by simp
next
  case (Cons x xs)
  then show ?case by (cases i) auto
qed

lemma current_last:
  "blocks st \<noteq> [] \<Longrightarrow> st_currentBlock st = Some (length (blocks st) - 1) \<Longrightarrow>
   current st = Some (last (blocks st))"
  by (simp add: current_def at_index_nth last_conv_nth)

lemma step_synced_added:
  assumes "items_finished cur (OutputItemAdded item # es)" and "synced cur st opn"
    and "item_added st item = (st1, p1, t1)"
  shows "\<exists>cur1. items_finished cur1 es \<and> synced cur1 st1 (open_after opn p1) \<and> no_overlap opn p1"
proof (cases "item_kind item")
  case None
  then obtain t where "item = OtherItem t" by (cases item) auto
  with assms None show ?thesis
    by (auto simp: item_added_def)
next
  case (Some k)
  with assms(1) have c: "cur = None" and n: "items_finished (Some k) es" by auto
  with assms(2) have o: "opn = None" by (simp add: synced_def)
  have "synced (Some k) st1 (open_after opn p1) \<and> no_overlap opn p1"
    using assms(3) Some o
    by (cases item)
      (auto simp: item_added_def Let_def synced_def blockIndex_def open_block_def blocks_def
        block_kind_def)
  with n show ?thesis by blast
qed

lemma at_index_Some: "at_index xs i = Some x \<Longrightarrow> i < length xs \<and> xs ! i = x"
proof (induction xs arbitrary: i)
  case Nil
  then show ?case by simp
next
  case (Cons y ys)
  then show ?case by (cases i) auto
qed

lemma current_item_update [simp]: "current (st\<lparr>st_currentItem := x\<rparr>) = current st"
  by (simp add: current_def split: option.splits)

lemma cursor_write_current [simp]: "st_currentBlock (write_current st b) = st_currentBlock st"
  by (simp add: write_current_def split: option.splits)

lemma kinds_item_update [simp]: "kinds (st\<lparr>st_currentItem := x\<rparr>) = kinds st"
  by (simp add: kinds_def)

lemma kinds_cursor_update [simp]: "kinds (st\<lparr>st_currentBlock := x\<rparr>) = kinds st"
  by (simp add: kinds_def)

lemma kinds_output_update [simp]:
  "am_content out = blocks st \<Longrightarrow> kinds (st\<lparr>st_output := out\<rparr>) = kinds st"
  by (simp add: kinds_def blocks_def)

lemma kinds_write_current:
  assumes "current st = Some b" and "block_kind b' = block_kind b"
  shows "kinds (write_current st b') = kinds st"
proof -
  from assms(1) obtain i where i: "st_currentBlock st = Some i" "at_index (blocks st) i = Some b"
    by (auto simp: current_def split: option.splits)
  from at_index_Some [OF i(2)] have "i < length (blocks st)" "blocks st ! i = b" by auto
  then have "(map block_kind (blocks st))[i := block_kind b'] = map block_kind (blocks st)"
    using assms(2) by (simp add: list_update_same_conv)
  then have "map block_kind ((blocks st)[i := b']) = map block_kind (blocks st)"
    by (simp add: map_update)
  with i(1) show ?thesis
    by (simp add: kinds_def write_current_def blocks_def)
qed

lemma kinds_summary_delta:
  "summary_delta st d = (st1, p1, t1) \<Longrightarrow>
   kinds st1 = kinds st \<and> st_currentBlock st1 = st_currentBlock st \<and> t1 = None
   \<and> start_indices p1 = [] \<and> list_all (\<lambda>ev. end_index ev = None) p1"
  by (auto simp: summary_delta_def kinds_write_current block_kind_def
      split: option.splits Item.splits BlockBody.splits if_splits)


lemma kinds_text_delta:
  "output_text_delta st d = (st1, p1, t1) \<Longrightarrow>
   kinds st1 = kinds st \<and> st_currentBlock st1 = st_currentBlock st
   \<and> start_indices p1 = [] \<and> list_all (\<lambda>ev. end_index ev = None) p1"
  by (auto simp: output_text_delta_def kinds_write_current block_kind_def
      split: option.splits Item.splits BlockBody.splits ContentPart.splits if_splits)

lemma kinds_refusal_delta:
  "refusal_delta st d = (st1, p1, t1) \<Longrightarrow>
   kinds st1 = kinds st \<and> st_currentBlock st1 = st_currentBlock st
   \<and> start_indices p1 = [] \<and> list_all (\<lambda>ev. end_index ev = None) p1"
  by (auto simp: refusal_delta_def kinds_write_current block_kind_def
      split: option.splits Item.splits BlockBody.splits ContentPart.splits if_splits)

lemma kinds_arguments_delta:
  "arguments_delta env st d = (st1, p1, t1) \<Longrightarrow>
   kinds st1 = kinds st \<and> st_currentBlock st1 = st_currentBlock st \<and> t1 = None
   \<and> start_indices p1 = [] \<and> list_all (\<lambda>ev. end_index ev = None) p1"
  by (auto simp: arguments_delta_def kinds_write_current set_prop_def Let_def block_kind_def
      split: option.splits Item.splits BlockBody.splits if_splits)

lemma kinds_completed:
  "response_completed model st response = (st1, p1, t1) \<Longrightarrow>
   kinds st1 = kinds st \<and> st_currentBlock st1 = st_currentBlock st \<and> p1 = []"
  by (auto simp: response_completed_def Let_def kinds_def blocks_def
      split: option.splits sum.splits)

lemma kinds_item_done:
  "item_done env ctx st item = (st1, p1, t1) \<Longrightarrow> kinds st1 = kinds st"
  by (auto simp: item_done_def kinds_write_current Let_def block_kind_def
      split: option.splits Item.splits BlockBody.splits sum.splits)

lemma step_quiet:
  assumes "step env model ctx st e = (st1, p1, t1)"
    and "\<And>item. e \<noteq> OutputItemAdded item" and "\<And>item. e \<noteq> OutputItemDone item"
  shows "kinds st1 = kinds st \<and> st_currentBlock st1 = st_currentBlock st
         \<and> start_indices p1 = [] \<and> list_all (\<lambda>ev. end_index ev = None) p1"
proof (cases e)
  case (ReasoningSummaryPartAdded part)
  with assms(1) show ?thesis
    by (auto simp: summary_part_added_def split: option.splits Item.splits)
next
  case (ContentPartAdded part)
  with assms(1) show ?thesis
    by (auto simp: content_part_added_def split: option.splits Item.splits)
next
  case (ResponseCompleted response)
  with assms(1) kinds_completed show ?thesis by fastforce
qed (use assms kinds_summary_delta kinds_text_delta kinds_refusal_delta kinds_arguments_delta
      in \<open>fastforce+\<close>)

lemma step_kinds:
  assumes "step env model ctx st e = (st1, p1, t1)" and "\<And>item. e \<noteq> OutputItemAdded item"
  shows "kinds st1 = kinds st"
proof (cases "\<exists>item. e = OutputItemDone item")
  case True
  with assms(1) kinds_item_done show ?thesis by auto
next
  case False
  with step_quiet [OF assms] show ?thesis by blast
qed

lemma step_thrown_quiet:
  "step env model ctx st e = (st1, p1, Some err) \<Longrightarrow> p1 = []"
  by (cases e)
    (auto simp: handler_defs Let_def
      split: option.splits Item.splits BlockBody.splits ContentPart.splits sum.splits if_splits)


lemma quiet_events:
  "start_indices p = [] \<Longrightarrow> list_all (\<lambda>ev. end_index ev = None) p \<Longrightarrow>
   no_overlap opn p \<and> open_after opn p = opn"
  by (induction p) (auto split: option.splits)

lemma synced_carried:
  assumes "synced cur st opn" and "kinds st1 = kinds st"
    and "st_currentBlock st1 = st_currentBlock st"
  shows "synced cur st1 opn"
proof (cases cur)
  case None
  with assms(1) show ?thesis by (simp add: synced_def)
next
  case (Some k)
  from assms(2) have len: "length (blocks st1) = length (blocks st)"
    by (metis kinds_def length_map)
  from Some assms(1) have ne: "blocks st \<noteq> []" by (simp add: synced_def)
  with len have ne1: "blocks st1 \<noteq> []" by auto
  have "block_kind (last (blocks st1)) = last (kinds st1)"
    using ne1 by (simp add: kinds_def last_map)
  also have "\<dots> = block_kind (last (blocks st))"
    using ne assms(2) by (simp add: kinds_def last_map)
  finally show ?thesis
    using Some assms(1,3) len ne1 by (simp add: synced_def blockIndex_def)
qed

lemma item_done_events:
  assumes "item_done env ctx st item = (st1, p1, t1)"
  shows "p1 = [] \<or> (\<exists>ev. p1 = [ev] \<and> start_index ev = None
                         \<and> end_index ev = Some (blockIndex st) \<and> t1 = None)"
  using assms
  by (auto simp: item_done_def Let_def
      split: Item.splits option.splits BlockBody.splits sum.splits)

lemma step_synced_done:
  assumes "items_finished cur (OutputItemDone item # es)" and "synced cur st opn"
    and "item_done env ctx st item = (st1, p1, t1)"
  shows "no_overlap opn p1
         \<and> (t1 = None \<longrightarrow> (\<exists>cur1. items_finished cur1 es \<and> synced cur1 st1 (open_after opn p1)))"
proof (cases "item_kind item")
  case None
  then obtain t where "item = OtherItem t" by (cases item) auto
  with assms None show ?thesis
    by (auto simp: item_done_def)
next
  case (Some k)
  with assms(1) have n: "items_finished (if cur = Some k then None else cur) es" by simp
  from item_done_events [OF assms(3)] have ov: "no_overlap opn p1"
    by auto
  show ?thesis
  proof (cases "cur = Some k")
    case True
    with assms(2) have cur: "current st = Some (last (blocks st))"
      and k: "block_kind (last (blocks st)) = k"
      and o: "opn = None \<or> opn = Some (blockIndex st)"
      by (auto simp: synced_def current_last)
    have "t1 = None \<longrightarrow> open_after opn p1 = None"
      using assms(3) Some cur k o
      by (cases item)
        (auto simp: item_done_def Let_def block_kind_def
          split: BlockBody.splits sum.splits option.splits)
    moreover have "synced None st1 None" by (simp add: synced_def)
    ultimately show ?thesis using n True ov by auto
  next
    case False
    show ?thesis
    proof (cases cur)
      case None
      with assms(2) have "opn = None" by (simp add: synced_def)
      with item_done_events [OF assms(3)] have "open_after opn p1 = None" by auto
      then have "synced cur st1 (open_after opn p1)"
        using None by (simp add: synced_def)
      with n False ov show ?thesis by auto
    next
      case (Some k0)
      with False have ne: "k0 \<noteq> k" by simp
      from Some assms(2) have cur: "current st = Some (last (blocks st))"
        and k0: "block_kind (last (blocks st)) = k0"
        and o: "opn = None \<or> opn = Some (blockIndex st)"
        and sy: "synced (Some k0) st opn"
        by (auto simp: synced_def current_last)
      have same: "t1 = None \<longrightarrow> st1 = st"
        using assms(3) \<open>item_kind item = Some k\<close> cur k0 ne
        by (cases item)
          (auto simp: item_done_def Let_def block_kind_def
            split: BlockBody.splits sum.splits option.splits)
      from item_done_events [OF assms(3)] o
      have "open_after opn p1 = None \<or> open_after opn p1 = Some (blockIndex st)"
        by auto
      with sy have "synced (Some k0) st (open_after opn p1)"
        by (auto simp: synced_def)
      with same Some n False ov show ?thesis by auto
    qed
  qed
qed

lemma step_synced:
  assumes "items_finished cur (e # es)" and "synced cur st opn"
    and "step env model ctx st e = (st1, p1, t1)"
  shows "no_overlap opn p1
         \<and> (t1 = None \<longrightarrow> (\<exists>cur1. items_finished cur1 es \<and> synced cur1 st1 (open_after opn p1)))"
proof -
  consider (added) item where "e = OutputItemAdded item"
    | (finished) item where "e = OutputItemDone item"
    | (quiet) "\<And>item. e \<noteq> OutputItemAdded item" "\<And>item. e \<noteq> OutputItemDone item"
    by blast
  then show ?thesis
  proof cases
    case added
    with assms step_synced_added [of cur item es st opn st1 p1 t1] show ?thesis by auto
  next
    case finished
    with assms step_synced_done [of cur item es st opn env ctx st1 p1 t1] show ?thesis by auto
  next
    case quiet
    from step_quiet [OF assms(3) quiet]
    have q: "kinds st1 = kinds st" "st_currentBlock st1 = st_currentBlock st"
      "start_indices p1 = []" "list_all (\<lambda>ev. end_index ev = None) p1"
      by auto
    from quiet_events [OF q(3,4)] have o: "no_overlap opn p1" "open_after opn p1 = opn" by auto
    have n: "items_finished cur es"
      using assms(1) quiet by (cases e) auto
    from synced_carried [OF assms(2) q(1,2)] n o show ?thesis by auto
  qed
qed

lemma process_no_overlap:
  assumes "items_finished cur es" and "synced cur st opn"
    and "process env model ctx st es = (st', pushed, thrown)"
  shows "no_overlap opn pushed"
  using assms
proof (induction es arbitrary: cur st opn st' pushed thrown)
  case Nil
  then show ?case by simp
next
  case (Cons e es)
  obtain st1 p1 t1 where s1: "step env model ctx st e = (st1, p1, t1)"
    by (cases "step env model ctx st e") auto
  from step_synced [OF Cons.prems(1,2) s1]
  have o1: "no_overlap opn p1"
    and nx: "t1 = None \<longrightarrow> (\<exists>cur1. items_finished cur1 es \<and> synced cur1 st1 (open_after opn p1))"
    by auto
  show ?case
  proof (cases t1)
    case (Some err)
    with Cons.prems(3) s1 have "pushed = p1" by auto
    with o1 show ?thesis by simp
  next
    case None
    obtain st2 p2 t2 where s2: "process env model ctx st1 es = (st2, p2, t2)"
      by (cases "process env model ctx st1 es") auto
    with Cons.prems(3) s1 None have eq: "pushed = p1 @ p2" by auto
    from nx None obtain cur1 where
      "items_finished cur1 es" "synced cur1 st1 (open_after opn p1)" by auto
    from Cons.IH [OF this s2] have "no_overlap (open_after opn p1) p2" .
    with o1 eq show ?thesis by (simp add: no_overlap_append)
  qed
qed

lemma step_no_terminal:
  "step env model ctx st e = (st', pushed, thrown) \<Longrightarrow>
   list_all (\<lambda>ev. \<not> is_terminal ev) pushed"
  by (cases e)
    (auto simp: handler_defs Let_def
      split: option.splits Item.splits BlockBody.splits ContentPart.splits sum.splits if_splits)

lemma process_no_terminal:
  "process env model ctx st es = (st', pushed, thrown) \<Longrightarrow>
   list_all (\<lambda>ev. \<not> is_terminal ev) pushed"
proof (induction es arbitrary: st st' pushed thrown)
  case Nil
  then show ?case by simp
next
  case (Cons e es)
  obtain st1 p1 t1 where s1: "step env model ctx st e = (st1, p1, t1)"
    by (cases "step env model ctx st e") auto
  note n1 = step_no_terminal [OF s1]
  show ?case
  proof (cases t1)
    case (Some err)
    with Cons.prems s1 n1 show ?thesis by auto
  next
    case None
    obtain st2 p2 t2 where s2: "process env model ctx st1 es = (st2, p2, t2)"
      by (cases "process env model ctx st1 es") auto
    with Cons.prems s1 None have "pushed = p1 @ p2" by auto
    with n1 Cons.IH [OF s2] show ?thesis by simp
  qed
qed

lemmas cursor_defs =
  blocks_def blockIndex_def current_def write_current_def open_block_def get_prop_def
  set_prop_def delete_prop_def last_part_def

lemma scenario_A_run:
  assumes "connect env model ctx options (wire scenario_A) = None"
    and "finished_toolCall env ctx (sample_call ''call_1'' ''fc_1'' ''{\"q\":\"x\"}'') = Inr toolCall"
  shows "es_events (streamOpenAIResponses env model ctx options (wire scenario_A))
    = [Start, TextStart 0, TextDelta 0 ''Hello'', TextEnd 0 ''Hello'', ToolcallStart 1,
       ToolcallDelta 1 ''{\"q\":'', ToolcallDelta 1 ''\"x\"}'',
       ToolcallEnd 1 toolCall,
       if signal_aborted options
       then ErrorEvent AbortedR
              ((scenario_A_message env model)
                 \<lparr> am_stopReason := AbortedR, am_errorMessage := Some ''Request was aborted'' \<rparr>)
       else Done ToolUseR (scenario_A_message env model)]"
  using assms
  by (simp add: streamOpenAIResponses_def failure_def caught_def initial_state_def
      initial_output_def scenario_A_message_def delete_prop_def
      cursor_defs wire_def scenario_A_def sample_call_def sample_message_def sample_response_def
      handler_defs mapStopReason_def vendor_usage_def or_num_def is_toolCall_def Let_def)

lemma sample_connect:
  "connect sample_env gpt no_context (Some (call_options sig)) (wire evs) = None"
  by (simp add: connect_def createClient_def buildParams_input_def convertMessages_def
      sample_env_def gpt_def sample_model_def no_context_def call_options_def wire_def
      truthy_str_def or_str_def Let_def)

lemma sample_finished:
  "finished_toolCall sample_env no_context (sample_call ''call_1'' ''fc_1'' ''{\"q\":\"x\"}'')
     = Inr \<lparr> tc_id = ''call_1|fc_1'', tc_name = ''lookup'',
             tc_arguments = JObj [(''q'', JStr ''x'')] \<rparr>"
  by (simp add: finished_toolCall_def sample_env_def no_context_def sample_call_def)

lemma no_overlap_stream:
  assumes "items_finished None (vendor_events transport)"
  shows "no_overlap None (es_events (streamOpenAIResponses env model ctx options transport))"
proof (cases "connect env model ctx options transport")
  case (Some err)
  then show ?thesis
    by (simp add: streamOpenAIResponses_def caught_def Let_def)
next
  case None
  obtain st pushed thrown where p:
    "process env model ctx (initial_state (initial_output model (now transport)))
       (vendor_events transport) = (st, pushed, thrown)"
    by (cases "process env model ctx (initial_state (initial_output model (now transport)))
       (vendor_events transport)") auto
  have "synced None (initial_state (initial_output model (now transport))) None"
    by (simp add: synced_def)
  from process_no_overlap [OF assms this p] have "no_overlap None pushed" .
  then show ?thesis
    using None p
    by (simp add: streamOpenAIResponses_def Let_def caught_def no_overlap_append
        split: option.splits)
qed

text \<open>
  Claim C4, as the code has it. The N-th block opened carries content index N-1, so the
  indices are strictly increasing and never reused, whatever the vendor sends. That at
  most one block is open at any instant, no new block starting before the end event of
  the previous one, holds when the vendor finishes each item, with a finished item of
  the same kind, before it adds the next: the adapter itself never checks that the
  cursor is free before it opens a block.
\<close>

theorem content_index_discipline:
  "start_indices (es_events (streamOpenAIResponses env model ctx options transport))
     = map int [0 ..< length (start_indices
         (es_events (streamOpenAIResponses env model ctx options transport)))]
   \<and> (items_finished None (vendor_events transport) \<longrightarrow>
        no_overlap None (es_events (streamOpenAIResponses env model ctx options transport)))"
  using start_indices_stream no_overlap_stream by blast

theorem content_index_discipline_witness:
  "items_finished None (vendor_events (wire scenario_A))
   \<and> no_overlap None (es_events (streamOpenAIResponses sample_env gpt no_context
        (Some (call_options None)) (wire scenario_A)))
   \<and> start_indices (es_events (streamOpenAIResponses sample_env gpt no_context
        (Some (call_options None)) (wire scenario_A))) = [0, 1]
   \<and> items_finished None (vendor_events (wire
        [OutputItemAdded (MessageItem (sample_message [])),
         OutputItemDone (FunctionCall (sample_call ''call_1'' ''fc_1'' ''{\"q\":\"x\"}'')),
         OutputItemDone (MessageItem (sample_message [OutputText ''Hello'']))]))
   \<and> no_overlap None (es_events (streamOpenAIResponses sample_env gpt no_context
        (Some (call_options None)) (wire
        [OutputItemAdded (MessageItem (sample_message [])),
         OutputItemDone (FunctionCall (sample_call ''call_1'' ''fc_1'' ''{\"q\":\"x\"}'')),
         OutputItemDone (MessageItem (sample_message [OutputText ''Hello'']))])))"
proof -
  have n: "items_finished None (vendor_events (wire scenario_A))"
    by (simp add: wire_def scenario_A_def)
  have "\<not> signal_aborted (Some (call_options None))"
    by (simp add: signal_aborted_def call_options_def)
  with scenario_A_run [OF sample_connect sample_finished, of None]
  have s: "start_indices (es_events (streamOpenAIResponses sample_env gpt no_context
        (Some (call_options None)) (wire scenario_A))) = [0, 1]"
    by simp
  have m: "items_finished None (vendor_events (wire
        [OutputItemAdded (MessageItem (sample_message [])),
         OutputItemDone (FunctionCall (sample_call ''call_1'' ''fc_1'' ''{\"q\":\"x\"}'')),
         OutputItemDone (MessageItem (sample_message [OutputText ''Hello'']))]))"
    by (simp add: wire_def)
  from content_index_discipline [of sample_env gpt no_context "Some (call_options None)"
      "wire scenario_A"]
    content_index_discipline [of sample_env gpt no_context "Some (call_options None)"
      "wire [OutputItemAdded (MessageItem (sample_message [])),
         OutputItemDone (FunctionCall (sample_call ''call_1'' ''fc_1'' ''{\"q\":\"x\"}'')),
         OutputItemDone (MessageItem (sample_message [OutputText ''Hello'']))]"] n s m
  show ?thesis by blast
qed

text \<open>
  Claim C4 as the specification words it fails: when the vendor adds a function call
  while the message item is still in progress, the adapter starts block 1 before block
  0 has ended.
\<close>

theorem content_index_discipline_counterexample:
  "\<not> no_overlap None (es_events (streamOpenAIResponses sample_env gpt no_context
        (Some (call_options None))
        (wire [OutputItemAdded (MessageItem (sample_message [])),
               OutputItemAdded (FunctionCall (sample_call ''call_1'' ''fc_1'' []))])))"
  using sample_connect [of None "[OutputItemAdded (MessageItem (sample_message [])),
               OutputItemAdded (FunctionCall (sample_call ''call_1'' ''fc_1'' []))]"]
  by (simp add: streamOpenAIResponses_def failure_def initial_state_def
      initial_output_def cursor_defs wire_def sample_call_def sample_message_def
      handler_defs signal_aborted_def call_options_def Let_def)

subsection \<open>Stop reason and usage\<close>

lemma process_append:
  "process env model ctx st (xs @ ys) =
     (case process env model ctx st xs of
        (st1, p1, Some err) \<Rightarrow> (st1, p1, Some err)
      | (st1, p1, None) \<Rightarrow>
          (case process env model ctx st1 ys of
             (st2, p2, thrown) \<Rightarrow> (st2, p1 @ p2, thrown)))"
proof (induction xs arbitrary: st)
  case Nil
  then show ?case by (simp split: prod.splits)
next
  case (Cons x xs)
  then show ?case
    by (simp split: prod.splits option.splits)
qed

lemma calculateCost_tokens [simp]:
  "usage_input (calculateCost model u) = usage_input u"
  "usage_output (calculateCost model u) = usage_output u"
  "usage_cacheRead (calculateCost model u) = usage_cacheRead u"
  "usage_cacheWrite (calculateCost model u) = usage_cacheWrite u"
  by (simp_all add: calculateCost_def Let_def)

lemma step_keeps_reason:
  assumes "step env model ctx st e = (st1, p1, t1)" and "\<not> is_completed e"
  shows "am_stopReason (st_output st1) = am_stopReason (st_output st)
         \<and> am_usage (st_output st1) = am_usage (st_output st)"
  using assms
  by (cases e)
    (auto simp: handler_defs Let_def write_current_def open_block_def
      split: option.splits Item.splits BlockBody.splits ContentPart.splits sum.splits if_splits)

lemma process_keeps_reason:
  assumes "process env model ctx st es = (st', pushed, thrown)"
    and "list_all (\<lambda>e. \<not> is_completed e) es"
  shows "am_stopReason (st_output st') = am_stopReason (st_output st)
         \<and> am_usage (st_output st') = am_usage (st_output st)"
  using assms
proof (induction es arbitrary: st st' pushed thrown)
  case Nil
  then show ?case by simp
next
  case (Cons e es)
  obtain st1 p1 t1 where s1: "step env model ctx st e = (st1, p1, t1)"
    by (cases "step env model ctx st e") auto
  from Cons.prems(2) have ne: "\<not> is_completed e" and rest: "list_all (\<lambda>e. \<not> is_completed e) es"
    by auto
  note k1 = step_keeps_reason [OF s1 ne]
  show ?case
  proof (cases t1)
    case (Some err)
    with Cons.prems(1) s1 have "st' = st1" by auto
    with k1 show ?thesis by simp
  next
    case None
    obtain st2 p2 t2 where s2: "process env model ctx st1 es = (st2, p2, t2)"
      by (cases "process env model ctx st1 es") auto
    with Cons.prems(1) s1 None have "st' = st2" by auto
    with Cons.IH [OF s2 rest] k1 show ?thesis by simp
  qed
qed

lemma toolCall_kinds: "list_ex is_toolCall (blocks st) = (ToolCallKind \<in> set (kinds st))"
proof -
  have "\<And>b. is_toolCall b = (block_kind b = ToolCallKind)"
    by (simp add: is_toolCall_def block_kind_def split: BlockBody.splits)
  then have "list_ex is_toolCall (blocks st) = (\<exists>b \<in> set (blocks st). block_kind b = ToolCallKind)"
    by (simp add: list_ex_iff)
  also have "\<dots> = (ToolCallKind \<in> block_kind ` set (blocks st))"
    by (metis (mono_tags, lifting) image_iff)
  finally show ?thesis by (simp add: kinds_def)
qed

lemma step_keeps_toolCalls:
  assumes "step env model ctx st e = (st1, p1, t1)" and "\<not> adds_function_call e"
  shows "list_ex is_toolCall (blocks st1) = list_ex is_toolCall (blocks st)"
proof (cases "\<exists>item. e = OutputItemAdded item")
  case False
  then have "\<And>item. e \<noteq> OutputItemAdded item" by blast
  from step_kinds [OF assms(1) this] show ?thesis by (simp add: toolCall_kinds)
next
  case True
  then obtain item where e: "e = OutputItemAdded item" by blast
  with assms show ?thesis
    by (cases item) (auto simp: item_added_def Let_def is_toolCall_def)
qed

lemma process_keeps_toolCalls:
  assumes "process env model ctx st es = (st', pushed, thrown)"
    and "list_all (\<lambda>e. \<not> adds_function_call e) es"
  shows "list_ex is_toolCall (blocks st') = list_ex is_toolCall (blocks st)"
  using assms
proof (induction es arbitrary: st st' pushed thrown)
  case Nil
  then show ?case by simp
next
  case (Cons e es)
  obtain st1 p1 t1 where s1: "step env model ctx st e = (st1, p1, t1)"
    by (cases "step env model ctx st e") auto
  from Cons.prems(2) have ne: "\<not> adds_function_call e"
    and rest: "list_all (\<lambda>e. \<not> adds_function_call e) es"
    by auto
  note k1 = step_keeps_toolCalls [OF s1 ne]
  show ?case
  proof (cases t1)
    case (Some err)
    with Cons.prems(1) s1 have "st' = st1" by auto
    with k1 show ?thesis by simp
  next
    case None
    obtain st2 p2 t2 where s2: "process env model ctx st1 es = (st2, p2, t2)"
      by (cases "process env model ctx st1 es") auto
    with Cons.prems(1) s1 None have "st' = st2" by auto
    with Cons.IH [OF s2 rest] k1 show ?thesis by simp
  qed
qed


lemma stream_done:
  assumes "last (es_events (streamOpenAIResponses env model ctx options transport)) = Done reason msg"
  shows "\<exists>st pushed.
           process env model ctx (initial_state (initial_output model (now transport)))
             (vendor_events transport) = (st, pushed, None)
           \<and> msg = st_output st \<and> reason = am_stopReason msg"
proof (cases "connect env model ctx options transport")
  case (Some err)
  with assms show ?thesis
    by (simp add: streamOpenAIResponses_def caught_def Let_def)
next
  case None
  obtain st pushed thrown where p:
    "process env model ctx (initial_state (initial_output model (now transport)))
       (vendor_events transport) = (st, pushed, thrown)"
    by (cases "process env model ctx (initial_state (initial_output model (now transport)))
       (vendor_events transport)") auto
  from assms None p have f: "failure options transport st thrown = None"
    and m: "msg = st_output st" "reason = am_stopReason (st_output st)"
    by (auto simp: streamOpenAIResponses_def caught_def Let_def split: option.splits)
  from f have "thrown = None"
    by (simp add: failure_def split: option.splits)
  with p m show ?thesis by auto
qed

lemma process_completed_split:
  assumes "process env model ctx st0 (before @ ResponseCompleted response # after) = (st, pushed, None)"
  shows "\<exists>st1 p1 st2 p3.
           process env model ctx st0 before = (st1, p1, None)
           \<and> response_completed model st1 response = (st2, [], None)
           \<and> process env model ctx st2 after = (st, p3, None)"
proof -
  obtain st1 p1 t1 where a: "process env model ctx st0 before = (st1, p1, t1)"
    by (cases "process env model ctx st0 before") auto
  obtain st2 p2 t2 where b: "response_completed model st1 response = (st2, p2, t2)"
    by (cases "response_completed model st1 response") auto
  obtain st3 p3 t3 where c: "process env model ctx st2 after = (st3, p3, t3)"
    by (cases "process env model ctx st2 after") auto
  from assms a b c have "t1 = None" "t2 = None" "t3 = None" "st3 = st"
    by (auto simp: process_append split: option.splits)
  moreover from b have "p2 = []"
    by (auto simp: response_completed_def Let_def split: sum.splits)
  ultimately show ?thesis using a b c by auto
qed

lemma upgrade_on_done:
  assumes "last (es_events (streamOpenAIResponses env model ctx options transport)) = Done reason msg"
    and "vendor_events transport = before @ ResponseCompleted response # after"
    and "list_all (\<lambda>e. \<not> is_completed e \<and> \<not> adds_function_call e) after"
    and "list_ex is_toolCall (am_content msg)"
    and "mapStopReason (Option.bind response resp_status) = Inr StopR"
  shows "am_stopReason msg = ToolUseR \<and> reason = ToolUseR"
proof -
  from stream_done [OF assms(1)] assms(2) obtain st pushed where
    p: "process env model ctx (initial_state (initial_output model (now transport)))
          (before @ ResponseCompleted response # after) = (st, pushed, None)"
    and m: "msg = st_output st" "reason = am_stopReason msg"
    by auto
  from process_completed_split [OF p] obtain st1 p1 st2 p3 where
    c: "response_completed model st1 response = (st2, [], None)"
    and a: "process env model ctx st2 after = (st, p3, None)"
    by auto
  from assms(3) have quiet: "list_all (\<lambda>e. \<not> is_completed e) after"
    "list_all (\<lambda>e. \<not> adds_function_call e) after"
    by (simp_all add: list_all_iff)
  from process_keeps_toolCalls [OF a quiet(2)] assms(4) m(1)
  have tc: "list_ex is_toolCall (blocks st2)" by (simp add: blocks_def)
  from c assms(5) have "blocks st2 = blocks st1"
    and "am_stopReason (st_output st2)
           = (if list_ex is_toolCall (blocks st1) then ToolUseR else StopR)"
    by (auto simp: response_completed_def Let_def blocks_def split: option.splits)
  with tc have "am_stopReason (st_output st2) = ToolUseR" by simp
  with process_keeps_reason [OF a quiet(1)] m show ?thesis by simp
qed

lemma error_event_reason:
  assumes "last (es_events (streamOpenAIResponses env model ctx options transport))
             = ErrorEvent reason msg"
  shows "am_stopReason msg = reason
         \<and> reason = (if signal_aborted options then AbortedR else ErrorR)"
proof (cases "connect env model ctx options transport")
  case (Some err)
  with assms show ?thesis
    by (auto simp: streamOpenAIResponses_def caught_def Let_def)
next
  case None
  obtain st pushed thrown where p:
    "process env model ctx (initial_state (initial_output model (now transport)))
       (vendor_events transport) = (st, pushed, thrown)"
    by (cases "process env model ctx (initial_state (initial_output model (now transport)))
       (vendor_events transport)") auto
  from assms None p show ?thesis
    by (auto simp: streamOpenAIResponses_def caught_def Let_def split: option.splits)
qed

text \<open>
  Claim C1, as the code has it. The statuses completed, in_progress and queued and an
  absent status all map to \<open>stop\<close>. The upgrade is made where \<open>response.completed\<close> is
  handled, so it reaches the message of a \<open>done\<close> event when no later vendor event is
  another completion or adds a function call: if that message contains a tool call and
  the status of the last completion mapped to \<open>stop\<close>, its stop reason, and the reason
  of the event, is \<open>toolUse\<close>. The message of an \<open>error\<close> event carries the reason of
  that event instead, which is \<open>aborted\<close> when the caller's signal is aborted and
  \<open>error\<close> otherwise.
\<close>

theorem stop_reason_upgrade:
  "mapStopReason None = Inr StopR
   \<and> mapStopReason (Some Completed) = Inr StopR
   \<and> mapStopReason (Some InProgress) = Inr StopR
   \<and> mapStopReason (Some Queued) = Inr StopR
   \<and> (last (es_events (streamOpenAIResponses env model ctx options transport)) = Done reason msg
        \<and> vendor_events transport = before @ ResponseCompleted response # after
        \<and> list_all (\<lambda>e. \<not> is_completed e \<and> \<not> adds_function_call e) after
        \<and> list_ex is_toolCall (am_content msg)
        \<and> mapStopReason (Option.bind response resp_status) = Inr StopR
      \<longrightarrow> am_stopReason msg = ToolUseR \<and> reason = ToolUseR)
   \<and> (last (es_events (streamOpenAIResponses env model ctx options transport))
          = ErrorEvent reason msg
      \<longrightarrow> am_stopReason msg = reason
          \<and> reason = (if signal_aborted options then AbortedR else ErrorR))"
proof -
  have table: "mapStopReason None = Inr StopR" "mapStopReason (Some Completed) = Inr StopR"
    "mapStopReason (Some InProgress) = Inr StopR" "mapStopReason (Some Queued) = Inr StopR"
    by (simp_all add: mapStopReason_def)
  from table upgrade_on_done [of env model ctx options transport reason msg before response after]
    error_event_reason [of env model ctx options transport reason msg]
  show ?thesis by blast
qed

theorem stop_reason_upgrade_witness:
  "last (es_events (streamOpenAIResponses sample_env gpt no_context (Some (call_options None))
          (wire scenario_A)))
     = Done ToolUseR (scenario_A_message sample_env gpt)
   \<and> list_ex is_toolCall (am_content (scenario_A_message sample_env gpt))
   \<and> mapStopReason (Some Completed) = Inr StopR
   \<and> am_stopReason (scenario_A_message sample_env gpt) = ToolUseR
   \<and> last (es_events (streamOpenAIResponses sample_env gpt no_context
          (Some (call_options (Some True))) (wire scenario_A)))
     = ErrorEvent AbortedR
         ((scenario_A_message sample_env gpt)
            \<lparr> am_stopReason := AbortedR, am_errorMessage := Some ''Request was aborted'' \<rparr>)
   \<and> am_stopReason ((scenario_A_message sample_env gpt)
            \<lparr> am_stopReason := AbortedR, am_errorMessage := Some ''Request was aborted'' \<rparr>)
     = AbortedR"
proof -
  have na: "\<not> signal_aborted (Some (call_options None))"
    by (simp add: signal_aborted_def call_options_def)
  have ab: "signal_aborted (Some (call_options (Some True)))"
    by (simp add: signal_aborted_def call_options_def)
  have h1: "last (es_events (streamOpenAIResponses sample_env gpt no_context
                (Some (call_options None)) (wire scenario_A)))
              = Done ToolUseR (scenario_A_message sample_env gpt)"
    using scenario_A_run [OF sample_connect sample_finished, of None] na by simp
  have h2: "vendor_events (wire scenario_A)
              = butlast scenario_A @ ResponseCompleted (Some (sample_response Completed 10 5 None)) # []"
    by (simp add: wire_def scenario_A_def)
  have h3: "list_all (\<lambda>e. \<not> is_completed e \<and> \<not> adds_function_call e) []"
    by simp
  have h4: "list_ex is_toolCall (am_content (scenario_A_message sample_env gpt))"
    by (simp add: scenario_A_message_def is_toolCall_def)
  have h5: "mapStopReason (Option.bind (Some (sample_response Completed 10 5 None)) resp_status)
              = Inr StopR"
    by (simp add: mapStopReason_def sample_response_def)
  have e1: "last (es_events (streamOpenAIResponses sample_env gpt no_context
                (Some (call_options (Some True))) (wire scenario_A)))
          = ErrorEvent AbortedR
              ((scenario_A_message sample_env gpt)
                 \<lparr> am_stopReason := AbortedR, am_errorMessage := Some ''Request was aborted'' \<rparr>)"
    using scenario_A_run [OF sample_connect sample_finished, of "Some True"] ab by simp
  from stop_reason_upgrade [of sample_env gpt no_context "Some (call_options None)"
      "wire scenario_A" ToolUseR "scenario_A_message sample_env gpt" "butlast scenario_A"
      "Some (sample_response Completed 10 5 None)" "[]"] h1 h2 h3 h4 h5
  have u: "mapStopReason (Some Completed) = Inr StopR"
    "am_stopReason (scenario_A_message sample_env gpt) = ToolUseR"
    by blast+
  from stop_reason_upgrade [of sample_env gpt no_context "Some (call_options (Some True))"
      "wire scenario_A" AbortedR
      "(scenario_A_message sample_env gpt)
         \<lparr> am_stopReason := AbortedR, am_errorMessage := Some ''Request was aborted'' \<rparr>"] e1
  have a: "am_stopReason ((scenario_A_message sample_env gpt)
            \<lparr> am_stopReason := AbortedR, am_errorMessage := Some ''Request was aborted'' \<rparr>)
          = AbortedR"
    by blast
  from h1 h4 u e1 a show ?thesis by blast
qed

text \<open>
  Claim C1 as the specification words it fails: when the caller's signal is found
  aborted after scenario A has completed, the finalized message contains the tool call,
  the vendor's status mapped to \<open>stop\<close>, and the stop reason is \<open>aborted\<close>.
\<close>

theorem stop_reason_upgrade_counterexample:
  "last (es_events (streamOpenAIResponses sample_env gpt no_context (Some (call_options (Some True)))
          (wire scenario_A)))
     = ErrorEvent AbortedR
         ((scenario_A_message sample_env gpt)
            \<lparr> am_stopReason := AbortedR, am_errorMessage := Some ''Request was aborted'' \<rparr>)
   \<and> list_ex is_toolCall
        (am_content ((scenario_A_message sample_env gpt)
            \<lparr> am_stopReason := AbortedR, am_errorMessage := Some ''Request was aborted'' \<rparr>))
   \<and> mapStopReason (Some Completed) = Inr StopR
   \<and> am_stopReason ((scenario_A_message sample_env gpt)
            \<lparr> am_stopReason := AbortedR, am_errorMessage := Some ''Request was aborted'' \<rparr>)
       \<noteq> ToolUseR"
proof -
  have a: "signal_aborted (Some (call_options (Some True)))"
    by (simp add: signal_aborted_def call_options_def)
  have "last (es_events (streamOpenAIResponses sample_env gpt no_context
                (Some (call_options (Some True))) (wire scenario_A)))
          = ErrorEvent AbortedR
              ((scenario_A_message sample_env gpt)
                 \<lparr> am_stopReason := AbortedR, am_errorMessage := Some ''Request was aborted'' \<rparr>)"
    using scenario_A_run [OF sample_connect sample_finished, of "Some True"] a by simp
  then show ?thesis
    by (simp add: scenario_A_message_def is_toolCall_def mapStopReason_def)
qed

lemma completed_usage:
  assumes "resp_usage response = Some u"
    and "response_completed model st (Some response) = (st', pushed, thrown)"
  shows "usage_input (am_usage (st_output st')) = or_num (ru_input_tokens u) 0 - or_num (ru_cached_tokens u) 0
         \<and> usage_cacheRead (am_usage (st_output st')) = or_num (ru_cached_tokens u) 0
         \<and> usage_cacheWrite (am_usage (st_output st')) = 0"
  using assms
  by (auto simp: response_completed_def vendor_usage_def Let_def split: sum.splits)

text \<open>
  Claim C2: when \<open>response.completed\<close> reports usage with raw input tokens \<open>i\<close> and
  cached tokens \<open>c\<close>, the canonical usage has input \<open>i - c\<close>, cache read \<open>c\<close> and cache
  write 0: right after the event is handled, in any state, and in the message of the
  \<open>done\<close> event of a run whose last completion event it is.
\<close>

theorem cached_tokens_subtracted:
  assumes "resp_usage response = Some u"
    and "ru_input_tokens u = Some i" and "ru_cached_tokens u = Some c"
  shows "(let after_event = st_output (fst (step env model ctx st (ResponseCompleted (Some response))))
          in usage_input (am_usage after_event) = i - c
             \<and> usage_cacheRead (am_usage after_event) = c
             \<and> usage_cacheWrite (am_usage after_event) = 0)
         \<and> (last (es_events (streamOpenAIResponses env model ctx options transport)) = Done reason msg
              \<and> vendor_events transport = before @ ResponseCompleted (Some response) # after
              \<and> list_all (\<lambda>e. \<not> is_completed e) after
            \<longrightarrow> usage_input (am_usage msg) = i - c
                \<and> usage_cacheRead (am_usage msg) = c
                \<and> usage_cacheWrite (am_usage msg) = 0)"
proof -
  have num: "or_num (Some i) 0 = i" "or_num (Some c) 0 = c"
    by (simp_all add: or_num_def)
  have one: "\<And>st st' pushed thrown.
      response_completed model st (Some response) = (st', pushed, thrown) \<Longrightarrow>
      usage_input (am_usage (st_output st')) = i - c
      \<and> usage_cacheRead (am_usage (st_output st')) = c
      \<and> usage_cacheWrite (am_usage (st_output st')) = 0"
    using completed_usage [OF assms(1)] assms(2,3) num by simp
  have handler: "let after_event = st_output (fst (step env model ctx st (ResponseCompleted (Some response))))
          in usage_input (am_usage after_event) = i - c
             \<and> usage_cacheRead (am_usage after_event) = c
             \<and> usage_cacheWrite (am_usage after_event) = 0"
    using one [of st] by (cases "response_completed model st (Some response)") (simp add: Let_def)
  have run: "usage_input (am_usage msg) = i - c
                \<and> usage_cacheRead (am_usage msg) = c
                \<and> usage_cacheWrite (am_usage msg) = 0"
    if d: "last (es_events (streamOpenAIResponses env model ctx options transport)) = Done reason msg"
      and v: "vendor_events transport = before @ ResponseCompleted (Some response) # after"
      and q: "list_all (\<lambda>e. \<not> is_completed e) after"
  proof -
    from stream_done [OF d] v obtain st' pushed where
      p: "process env model ctx (initial_state (initial_output model (now transport)))
            (before @ ResponseCompleted (Some response) # after) = (st', pushed, None)"
      and m: "msg = st_output st'"
      by auto
    from process_completed_split [OF p] obtain st1 st2 p3 where
      c: "response_completed model st1 (Some response) = (st2, [], None)"
      and a: "process env model ctx st2 after = (st', p3, None)"
      by auto
    from process_keeps_reason [OF a q] one [OF c] m show ?thesis by simp
  qed
  from handler run show ?thesis by blast
qed

theorem cached_tokens_subtracted_witness:
  "usage_input (am_usage (st_output (fst (step sample_env gpt no_context
       (initial_state (initial_output gpt 0))
       (ResponseCompleted (Some (sample_response Completed 1000 250 (Some 400)))))))) = 600
   \<and> usage_cacheRead (am_usage (st_output (fst (step sample_env gpt no_context
       (initial_state (initial_output gpt 0))
       (ResponseCompleted (Some (sample_response Completed 1000 250 (Some 400)))))))) = 400
   \<and> last (es_events (streamOpenAIResponses sample_env gpt no_context (Some (call_options None))
         (wire [ResponseCompleted (Some (sample_response Completed 1000 250 (Some 400)))])))
       = Done StopR
           ((initial_output gpt 0)\<lparr>am_usage := calculateCost gpt
              \<lparr> usage_input = 600, usage_output = 250, usage_cacheRead = 400,
                usage_cacheWrite = 0, usage_cost = zero_cost \<rparr>\<rparr>)
   \<and> usage_input (am_usage ((initial_output gpt 0)\<lparr>am_usage := calculateCost gpt
              \<lparr> usage_input = 600, usage_output = 250, usage_cacheRead = 400,
                usage_cacheWrite = 0, usage_cost = zero_cost \<rparr>\<rparr>)) = 600
   \<and> usage_cacheRead (am_usage ((initial_output gpt 0)\<lparr>am_usage := calculateCost gpt
              \<lparr> usage_input = 600, usage_output = 250, usage_cacheRead = 400,
                usage_cacheWrite = 0, usage_cost = zero_cost \<rparr>\<rparr>)) = 400"
proof -
  have d: "last (es_events (streamOpenAIResponses sample_env gpt no_context (Some (call_options None))
         (wire [ResponseCompleted (Some (sample_response Completed 1000 250 (Some 400)))])))
       = Done StopR
           ((initial_output gpt 0)\<lparr>am_usage := calculateCost gpt
              \<lparr> usage_input = 600, usage_output = 250, usage_cacheRead = 400,
                usage_cacheWrite = 0, usage_cost = zero_cost \<rparr>\<rparr>)"
    using sample_connect [of None "[ResponseCompleted (Some (sample_response Completed 1000 250 (Some 400)))]"]
    by (simp add: streamOpenAIResponses_def failure_def initial_state_def initial_output_def
        wire_def sample_response_def response_completed_def mapStopReason_def vendor_usage_def
        or_num_def is_toolCall_def signal_aborted_def call_options_def Let_def)
  have v: "vendor_events (wire [ResponseCompleted (Some (sample_response Completed 1000 250 (Some 400)))])
             = [] @ ResponseCompleted (Some (sample_response Completed 1000 250 (Some 400))) # []"
    by (simp add: wire_def)
  have q: "list_all (\<lambda>e. \<not> is_completed e) []" by simp
  have h1: "resp_usage (sample_response Completed 1000 250 (Some 400))
              = Some \<lparr> ru_input_tokens = Some 1000, ru_output_tokens = Some 250,
                       ru_cached_tokens = Some 400 \<rparr>"
    by (simp add: sample_response_def)
  have h2: "ru_input_tokens \<lparr> ru_input_tokens = Some 1000, ru_output_tokens = Some 250,
                       ru_cached_tokens = Some 400 \<rparr> = Some 1000"
    by simp
  have h3: "ru_cached_tokens \<lparr> ru_input_tokens = Some 1000, ru_output_tokens = Some 250,
                       ru_cached_tokens = Some 400 \<rparr> = Some 400"
    by simp
  from cached_tokens_subtracted [OF h1 h2 h3, of sample_env gpt no_context
      "initial_state (initial_output gpt 0)" "Some (call_options None)"
      "wire [ResponseCompleted (Some (sample_response Completed 1000 250 (Some 400)))]"
      StopR _ "[]" "[]"] d v q
  show ?thesis by (simp add: Let_def)
qed

subsection \<open>Unmatched deltas, errors and scenario A\<close>

text \<open>
  Claim C6, as the code has it: a vendor delta event that does not match the cursor
  state (no block under the cursor, or a block or a mirrored item of another kind than
  the delta is for) is ignored: the handler pushes no event, throws nothing and leaves
  the state as it is. The adapter has no protocol error for it.
\<close>

theorem unmatched_delta_ignored:
  assumes "delta_kind e = Some k"
    and "cursor_kind st \<noteq> Some k \<or> mirrored_kind st \<noteq> Some k"
  shows "step env model ctx st e = (st, [], None)"
  using assms
  by (cases e)
    (auto simp: cursor_kind_def mirrored_kind_def block_kind_def summary_delta_def
      output_text_delta_def refusal_delta_def arguments_delta_def
      split: option.splits Item.splits BlockBody.splits ContentPart.splits)

theorem unmatched_delta_ignored_witness:
  "delta_kind (OutputTextDelta ''Hello'') = Some TextKind
   \<and> cursor_kind (initial_state (initial_output gpt 0)) \<noteq> Some TextKind
   \<and> step sample_env gpt no_context (initial_state (initial_output gpt 0)) (OutputTextDelta ''Hello'')
       = (initial_state (initial_output gpt 0), [], None)"
proof -
  have k: "delta_kind (OutputTextDelta ''Hello'') = Some TextKind" by simp
  have c: "cursor_kind (initial_state (initial_output gpt 0)) \<noteq> Some TextKind"
    by (simp add: cursor_kind_def current_def initial_state_def)
  then have "cursor_kind (initial_state (initial_output gpt 0)) \<noteq> Some TextKind
             \<or> mirrored_kind (initial_state (initial_output gpt 0)) \<noteq> Some TextKind"
    by simp
  from unmatched_delta_ignored [OF k this] k c show ?thesis by simp
qed

text \<open>
  Claim C6 as the specification words it fails: a text delta that arrives while no
  block is open is followed by \<open>done\<close>, not by an \<open>error\<close> event.
\<close>

theorem unmatched_delta_counterexample:
  "es_events (streamOpenAIResponses sample_env gpt no_context (Some (call_options None))
      (wire [OutputTextDelta ''Hello'']))
     = [Start, Done StopR (initial_output gpt 0)]"
  using sample_connect [of None "[OutputTextDelta ''Hello'']"]
  by (simp add: streamOpenAIResponses_def failure_def initial_state_def initial_output_def
      wire_def output_text_delta_def current_def signal_aborted_def call_options_def Let_def)

text \<open>
  A run in which opening or reading the stream fails, or the caller's signal is found
  aborted, pushes exactly one terminal event, an \<open>error\<close> event, as its last event;
  the reason is \<open>aborted\<close> when the signal is aborted and \<open>error\<close> otherwise, the
  message carries that reason and an error text, and the stream is ended.
\<close>

lemma error_event_is_last:
  assumes "connect env model ctx options transport \<noteq> None \<or> stream_error transport \<noteq> None
           \<or> signal_aborted options"
  shows "\<exists>pushed msg.
           es_events (streamOpenAIResponses env model ctx options transport)
             = pushed @ [ErrorEvent (if signal_aborted options then AbortedR else ErrorR) msg]
           \<and> list_all (\<lambda>ev. \<not> is_terminal ev) pushed
           \<and> am_stopReason msg = (if signal_aborted options then AbortedR else ErrorR)
           \<and> am_errorMessage msg \<noteq> None
           \<and> es_ended (streamOpenAIResponses env model ctx options transport)"
proof (cases "connect env model ctx options transport")
  case (Some err)
  then have "es_events (streamOpenAIResponses env model ctx options transport)
               = [] @ [caught options (initial_output model (now transport)) err]"
    and "es_ended (streamOpenAIResponses env model ctx options transport)"
    by (simp_all add: streamOpenAIResponses_def Let_def)
  then show ?thesis
    by (simp add: caught_def Let_def)
next
  case None
  obtain st pushed thrown where p:
    "process env model ctx (initial_state (initial_output model (now transport)))
       (vendor_events transport) = (st, pushed, thrown)"
    by (cases "process env model ctx (initial_state (initial_output model (now transport)))
       (vendor_events transport)") auto
  from assms None have "failure options transport st thrown \<noteq> None"
    by (cases thrown; cases "stream_error transport") (auto simp: failure_def)
  then obtain err where f: "failure options transport st thrown = Some err"
    by blast
  from None p f have
    "es_events (streamOpenAIResponses env model ctx options transport)
       = (Start # pushed) @ [caught options (st_output st) err]"
    and "es_ended (streamOpenAIResponses env model ctx options transport)"
    by (simp_all add: streamOpenAIResponses_def Let_def)
  moreover have "list_all (\<lambda>ev. \<not> is_terminal ev) (Start # pushed)"
    using process_no_terminal [OF p] by simp
  ultimately show ?thesis
    by (simp add: caught_def Let_def)
qed

text \<open>
  Claim C3 at a failing input: the vendor adds a function call and the caller's signal
  is then found aborted. The run ends in one \<open>error\<close> event with reason \<open>aborted\<close> and
  the text of the error, as \<open>error_event_is_last\<close> shows for every such run; but the
  tool-call block of its message still carries the property \<open>partialJson\<close>, which is
  not part of the canonical shape: the \<open>catch\<close> block deletes \<open>index\<close>, a property no
  block of this adapter has.
\<close>

theorem abort_keeps_partialJson:
  "es_events (streamOpenAIResponses sample_env gpt no_context (Some (call_options (Some True)))
      (wire [OutputItemAdded (FunctionCall (sample_call ''call_1'' ''fc_1'' []))]))
     = [Start, ToolcallStart 0,
        ErrorEvent AbortedR
          ((initial_output gpt 0)
             \<lparr> am_content :=
                 [\<lparr> blk_body = ToolCallContent
                       \<lparr> tc_id = ''call_1|fc_1'', tc_name = ''lookup'', tc_arguments = JObj [] \<rparr>,
                    blk_props = [(''partialJson'', [])] \<rparr>],
               am_stopReason := AbortedR,
               am_errorMessage := Some ''Request was aborted'' \<rparr>)]
   \<and> \<not> canonical
         \<lparr> blk_body = ToolCallContent
             \<lparr> tc_id = ''call_1|fc_1'', tc_name = ''lookup'', tc_arguments = JObj [] \<rparr>,
           blk_props = [(''partialJson'', [])] \<rparr>"
  using sample_connect [of "Some True" "[OutputItemAdded (FunctionCall (sample_call ''call_1'' ''fc_1'' []))]"]
  by (simp add: streamOpenAIResponses_def failure_def caught_def initial_state_def
      initial_output_def wire_def item_added_def cursor_defs sample_call_def canonical_def
      signal_aborted_def call_options_def Let_def)

text \<open>
  Claim C5 on the code: scenario A ends in \<open>done\<close> with stop reason \<open>toolUse\<close>, and the
  \<open>toolcall_end\<close> event carries the strictly parsed, validated tool call. The message,
  however, keeps the block as the deltas left it: its arguments are the result of
  \<open>parseStreamingJson\<close> on the accumulated text, and it still carries the property
  \<open>partialJson\<close>, which is not part of the canonical shape.
\<close>

theorem scenario_A_result:
  assumes "connect env model ctx options (wire scenario_A) = None"
    and "finished_toolCall env ctx (sample_call ''call_1'' ''fc_1'' ''{\"q\":\"x\"}'') = Inr toolCall"
    and "\<not> signal_aborted options"
  shows "last (es_events (streamOpenAIResponses env model ctx options (wire scenario_A)))
           = Done ToolUseR (scenario_A_message env model)
         \<and> es_events (streamOpenAIResponses env model ctx options (wire scenario_A)) ! 7
           = ToolcallEnd 1 toolCall
         \<and> am_content (scenario_A_message env model)
           = [\<lparr> blk_body = TextContent ''Hello'' (Some ''msg_1''), blk_props = [] \<rparr>,
              \<lparr> blk_body = ToolCallContent
                   \<lparr> tc_id = ''call_1|fc_1'', tc_name = ''lookup'',
                     tc_arguments = parseStreamingJson env ''{\"q\":\"x\"}'' \<rparr>,
                blk_props = [(''partialJson'', ''{\"q\":\"x\"}'')] \<rparr>]
         \<and> \<not> list_all canonical (am_content (scenario_A_message env model))"
  using scenario_A_run [OF assms(1,2)] assms(3)
  by (simp add: scenario_A_message_def canonical_def)

theorem scenario_A_result_witness:
  "last (es_events (streamOpenAIResponses sample_env gpt no_context (Some (call_options None))
        (wire scenario_A)))
     = Done ToolUseR (scenario_A_message sample_env gpt)
   \<and> es_events (streamOpenAIResponses sample_env gpt no_context (Some (call_options None))
        (wire scenario_A)) ! 7
     = ToolcallEnd 1 \<lparr> tc_id = ''call_1|fc_1'', tc_name = ''lookup'',
                       tc_arguments = JObj [(''q'', JStr ''x'')] \<rparr>
   \<and> \<not> list_all canonical (am_content (scenario_A_message sample_env gpt))"
proof -
  have "\<not> signal_aborted (Some (call_options None))"
    by (simp add: signal_aborted_def call_options_def)
  from scenario_A_result [OF sample_connect sample_finished this]
  show ?thesis by blast
qed

subsection \<open>Identifiers and replay tokens\<close>

lemma js_split_nonempty: "js_split sep s \<noteq> []"
  by (induction s) (auto split: list.splits)




lemma convert_blocks_member:
  assumes "convert_blocks env r bs = Inr items" and "b \<in> set bs"
  shows "\<exists>xs. convert_block env r b = Inr xs \<and> set xs \<subseteq> set items"
  using assms
proof (induction bs arbitrary: items)
  case Nil
  then show ?case by simp
next
  case (Cons a bs)
  from Cons.prems(1) obtain xs ys where
    a: "convert_block env r a = Inr xs" and r: "convert_blocks env r bs = Inr ys"
    and i: "items = xs @ ys"
    by (auto split: sum.splits)
  show ?case
  proof (cases "b = a")
    case True
    with a i show ?thesis by auto
  next
    case False
    with Cons.prems(2) have "b \<in> set bs" by simp
    from Cons.IH [OF r this] i show ?thesis by auto
  qed
qed

lemma convert_all_member:
  assumes "convert_all env model msgs = Inr items" and "m \<in> set msgs"
  shows "\<exists>xs. convert_message env model m = Inr xs \<and> set xs \<subseteq> set items"
  using assms
proof (induction msgs arbitrary: items)
  case Nil
  then show ?case by simp
next
  case (Cons a msgs)
  from Cons.prems(1) obtain xs ys where
    a: "convert_message env model a = Inr xs" and r: "convert_all env model msgs = Inr ys"
    and i: "items = xs @ ys"
    by (auto split: sum.splits)
  show ?case
  proof (cases "m = a")
    case True
    with a i show ?thesis by auto
  next
    case False
    with Cons.prems(2) have "m \<in> set msgs" by simp
    from Cons.IH [OF r this] i show ?thesis by auto
  qed
qed






lemma at_index_update: "j < length xs \<Longrightarrow> at_index (xs[j := y]) j = Some y"
  by (simp add: at_index_nth)

lemma thinking_finalized:
  assumes "st_currentBlock st = Some j" and "at_index (blocks st) j = Some b"
    and "block_kind b = ThinkingKind"
  shows "at_index (blocks (fst (item_done env ctx st (Reasoning item)))) j
           = Some (b\<lparr>blk_body := ThinkingContent (js_join nl2 (ri_summary item))
                                   (Some (stringify_item env item))\<rparr>)"
proof -
  from at_index_Some [OF assms(2)] have j: "j < length (blocks st)" by simp
  from assms(1,2) have c: "current st = Some b" by (simp add: current_def)
  from assms(3) obtain t sg where "blk_body b = ThinkingContent t sg"
    by (auto simp: block_kind_def split: BlockBody.splits)
  with c assms(1) j show ?thesis
    by (simp add: item_done_def Let_def write_current_def blocks_def at_index_update)
qed

lemma thinking_replayed:
  assumes rt: "parse_item env (stringify_item env item) = Inr item"
    and ne: "stringify_item env item \<noteq> []"
    and b: "blk_body b = ThinkingContent t (Some (stringify_item env item))"
    and m: "b \<in> set (am_content msg)" "am_stopReason msg \<noteq> ErrorR"
    and h: "AssistantMsg msg \<in> set (transformMessages env (ctx_messages context) model)"
    and c: "convertMessages env model context skip = Inr items"
  shows "ReplayedItem item \<in> set items"
proof -
  from c obtain converted where
    all: "convert_all env model (transformMessages env (ctx_messages context) model) = Inr converted"
    and sub: "set converted \<subseteq> set items"
    by (auto simp: convertMessages_def Let_def split: sum.splits)
  from convert_all_member [OF all h] obtain xs where
    x: "convert_blocks env (am_stopReason msg) (am_content msg) = Inr xs"
    and xsub: "set xs \<subseteq> set converted"
    by (auto simp: convert_message_def)
  from convert_blocks_member [OF x m(1)] obtain ys where
    y: "convert_block env (am_stopReason msg) b = Inr ys" and ysub: "set ys \<subseteq> set xs"
    by auto
  from y b m(2) rt ne have "ys = [ReplayedItem item]"
    by (simp add: convert_block_def)
  with ysub xsub sub show ?thesis by auto
qed

lemma sample_roundtrip:
  "parse_item sample_env (stringify_item sample_env sample_reasoning) = Inr sample_reasoning
   \<and> stringify_item sample_env sample_reasoning \<noteq> []"
  by (simp add: sample_env_def sample_reasoning_def)

lemma thinking_run:
  "es_events (streamOpenAIResponses sample_env gpt no_context (Some (call_options None))
     (wire (OutputItemAdded (Reasoning (sample_reasoning\<lparr>ri_summary := []\<rparr>))
            # OutputItemDone (Reasoning sample_reasoning)
            # (if failed then [ResponseFailed] else []))))
   = [Start, ThinkingStart 0, ThinkingEnd 0 ''plan'',
      if failed then ErrorEvent ErrorR (thinking_message ErrorR (Some ''Unknown error''))
      else Done StopR (thinking_message StopR None)]"
  using sample_connect [of None "OutputItemAdded (Reasoning (sample_reasoning\<lparr>ri_summary := []\<rparr>))
            # OutputItemDone (Reasoning sample_reasoning)
            # (if failed then [ResponseFailed] else [])"]
  by (simp add: streamOpenAIResponses_def failure_def caught_def initial_state_def
      initial_output_def wire_def item_added_def item_done_def cursor_defs
      sample_reasoning_def sample_env_def thinking_message_def thinking_block_def
      signal_aborted_def call_options_def Let_def)

lemma convert_block_replayed:
  assumes "convert_block env r b = Inr xs" and "ReplayedItem ri \<in> set xs"
  shows "r \<noteq> ErrorR
         \<and> (\<exists>t sg. blk_body b = ThinkingContent t (Some sg) \<and> parse_item env sg = Inr ri)"
  using assms
  by (auto simp: convert_block_def split: BlockBody.splits if_splits option.splits sum.splits)

lemma convert_blocks_replayed:
  assumes "convert_blocks env r bs = Inr items" and "ReplayedItem ri \<in> set items"
  shows "r \<noteq> ErrorR
         \<and> (\<exists>b t sg. b \<in> set bs \<and> blk_body b = ThinkingContent t (Some sg)
                \<and> parse_item env sg = Inr ri)"
  using assms
proof (induction bs arbitrary: items)
  case Nil
  then show ?case by simp
next
  case (Cons a bs)
  from Cons.prems(1) obtain xs ys where
    a: "convert_block env r a = Inr xs" and r: "convert_blocks env r bs = Inr ys"
    and i: "items = xs @ ys"
    by (auto split: sum.splits)
  from Cons.prems(2) i consider "ReplayedItem ri \<in> set xs" | "ReplayedItem ri \<in> set ys"
    by auto
  then show ?case
  proof cases
    case 1
    from convert_block_replayed [OF a 1] show ?thesis by auto
  next
    case 2
    from Cons.IH [OF r 2] show ?thesis by auto
  qed
qed

lemma convert_message_replayed:
  assumes "convert_message env model m = Inr xs" and "ReplayedItem ri \<in> set xs"
  shows "\<exists>msg b t sg. m = AssistantMsg msg \<and> am_stopReason msg \<noteq> ErrorR
           \<and> b \<in> set (am_content msg) \<and> blk_body b = ThinkingContent t (Some sg)
           \<and> parse_item env sg = Inr ri"
proof (cases m)
  case (UserMessage content ts)
  with assms show ?thesis
    by (cases content) (auto simp: convert_message_def Let_def split: if_splits)
next
  case (AssistantMsg msg)
  with assms have "convert_blocks env (am_stopReason msg) (am_content msg) = Inr xs"
    by (simp add: convert_message_def)
  from convert_blocks_replayed [OF this assms(2)] AssistantMsg show ?thesis by auto
next
  case (ToolResultMessage toolCallId toolName content isError ts)
  with assms show ?thesis
    by (auto simp: convert_message_def Let_def split: if_splits)
qed

lemma convert_all_replayed:
  assumes "convert_all env model msgs = Inr items" and "ReplayedItem ri \<in> set items"
  shows "\<exists>m xs. m \<in> set msgs \<and> convert_message env model m = Inr xs
           \<and> ReplayedItem ri \<in> set xs"
  using assms
proof (induction msgs arbitrary: items)
  case Nil
  then show ?case by simp
next
  case (Cons a msgs)
  from Cons.prems(1) obtain xs ys where
    a: "convert_message env model a = Inr xs" and r: "convert_all env model msgs = Inr ys"
    and i: "items = xs @ ys"
    by (auto split: sum.splits)
  from Cons.prems(2) i consider "ReplayedItem ri \<in> set xs" | "ReplayedItem ri \<in> set ys"
    by auto
  then show ?case
  proof cases
    case 1
    with a show ?thesis by auto
  next
    case 2
    from Cons.IH [OF r 2] show ?thesis by auto
  qed
qed

lemma replayed_only_without_error:
  assumes "convertMessages env model context skip = Inr items"
    and "ReplayedItem ri \<in> set items"
  shows "\<exists>msg b t sg.
           AssistantMsg msg \<in> set (transformMessages env (ctx_messages context) model)
           \<and> am_stopReason msg \<noteq> ErrorR \<and> b \<in> set (am_content msg)
           \<and> blk_body b = ThinkingContent t (Some sg) \<and> parse_item env sg = Inr ri"
proof -
  from assms obtain converted where
    all: "convert_all env model (transformMessages env (ctx_messages context) model) = Inr converted"
    and r: "ReplayedItem ri \<in> set converted"
    by (auto simp: convertMessages_def Let_def split: sum.splits if_splits)
  from convert_all_replayed [OF all r] obtain m xs where
    m: "m \<in> set (transformMessages env (ctx_messages context) model)"
    and x: "convert_message env model m = Inr xs" "ReplayedItem ri \<in> set xs"
    by auto
  from convert_message_replayed [OF x] m show ?thesis by blast
qed

text \<open>
  Claim C9, as the code has it. When the adapter finishes a thinking block from a vendor
  reasoning item, the block's signature is the item's serialised form. When a history
  is converted back into vendor input, every block with that signature, in every
  assistant message that the message transformation passes on and whose stop reason is
  not \<open>error\<close>, is sent as the parsed signature, which is the item itself given that
  parsing inverts serialising. Thinking blocks of a message that ended in \<open>error\<close> are
  not sent: every replayed item in the vendor input is the parsed signature of a
  thinking block of an assistant message whose stop reason is not \<open>error\<close>.
\<close>

theorem thinking_replay:
  assumes "parse_item env (stringify_item env item) = Inr item"
    and "stringify_item env item \<noteq> []"
  shows "(\<forall>st j b. st_currentBlock st = Some j \<and> at_index (blocks st) j = Some b
            \<and> block_kind b = ThinkingKind \<longrightarrow>
            at_index (blocks (fst (item_done env ctx st (Reasoning item)))) j
              = Some (b\<lparr>blk_body := ThinkingContent (js_join nl2 (ri_summary item))
                                      (Some (stringify_item env item))\<rparr>))
         \<and> (\<forall>b t msg context skip items.
              blk_body b = ThinkingContent t (Some (stringify_item env item))
              \<and> b \<in> set (am_content msg) \<and> am_stopReason msg \<noteq> ErrorR
              \<and> AssistantMsg msg \<in> set (transformMessages env (ctx_messages context) model)
              \<and> convertMessages env model context skip = Inr items \<longrightarrow>
              ReplayedItem item \<in> set items)
         \<and> (\<forall>context skip items ri.
              convertMessages env model context skip = Inr items
              \<and> ReplayedItem ri \<in> set items \<longrightarrow>
              (\<exists>msg b t sg.
                 AssistantMsg msg \<in> set (transformMessages env (ctx_messages context) model)
                 \<and> am_stopReason msg \<noteq> ErrorR \<and> b \<in> set (am_content msg)
                 \<and> blk_body b = ThinkingContent t (Some sg) \<and> parse_item env sg = Inr ri))"
proof -
  have fin: "\<forall>st j b. st_currentBlock st = Some j \<and> at_index (blocks st) j = Some b
            \<and> block_kind b = ThinkingKind \<longrightarrow>
            at_index (blocks (fst (item_done env ctx st (Reasoning item)))) j
              = Some (b\<lparr>blk_body := ThinkingContent (js_join nl2 (ri_summary item))
                                      (Some (stringify_item env item))\<rparr>)"
    using thinking_finalized by blast
  have pos: "\<forall>b t msg context skip items.
              blk_body b = ThinkingContent t (Some (stringify_item env item))
              \<and> b \<in> set (am_content msg) \<and> am_stopReason msg \<noteq> ErrorR
              \<and> AssistantMsg msg \<in> set (transformMessages env (ctx_messages context) model)
              \<and> convertMessages env model context skip = Inr items \<longrightarrow>
              ReplayedItem item \<in> set items"
    using thinking_replayed [OF assms] by blast
  have neg: "\<forall>context skip items ri.
              convertMessages env model context skip = Inr items
              \<and> ReplayedItem ri \<in> set items \<longrightarrow>
              (\<exists>msg b t sg.
                 AssistantMsg msg \<in> set (transformMessages env (ctx_messages context) model)
                 \<and> am_stopReason msg \<noteq> ErrorR \<and> b \<in> set (am_content msg)
                 \<and> blk_body b = ThinkingContent t (Some sg) \<and> parse_item env sg = Inr ri)"
    using replayed_only_without_error by blast
  from fin pos neg show ?thesis by blast
qed

theorem thinking_replay_witness:
  "last (es_events (streamOpenAIResponses sample_env gpt no_context (Some (call_options None))
     (wire [OutputItemAdded (Reasoning (sample_reasoning\<lparr>ri_summary := []\<rparr>)),
            OutputItemDone (Reasoning sample_reasoning)])))
     = Done StopR (thinking_message StopR None)
   \<and> convertMessages sample_env gpt (history (thinking_message StopR None)) False
     = Inr [ReplayedItem sample_reasoning]
   \<and> ReplayedItem sample_reasoning \<in> set [ReplayedItem sample_reasoning]"
proof -
  have r: "last (es_events (streamOpenAIResponses sample_env gpt no_context (Some (call_options None))
     (wire [OutputItemAdded (Reasoning (sample_reasoning\<lparr>ri_summary := []\<rparr>)),
            OutputItemDone (Reasoning sample_reasoning)])))
     = Done StopR (thinking_message StopR None)"
    using thinking_run [of False] by simp
  have c: "convertMessages sample_env gpt (history (thinking_message StopR None)) False
     = Inr [ReplayedItem sample_reasoning]"
    by (simp add: convertMessages_def convert_message_def convert_block_def history_def
        thinking_message_def thinking_block_def truthy_str_def sample_env_def
        sample_reasoning_def Let_def)
  have b: "blk_body thinking_block
             = ThinkingContent ''plan'' (Some (stringify_item sample_env sample_reasoning))"
    by (simp add: thinking_block_def sample_env_def)
  have m: "thinking_block \<in> set (am_content (thinking_message StopR None))"
    "am_stopReason (thinking_message StopR None) \<noteq> ErrorR"
    by (simp_all add: thinking_message_def)
  have h: "AssistantMsg (thinking_message StopR None)
             \<in> set (transformMessages sample_env
                       (ctx_messages (history (thinking_message StopR None))) gpt)"
    by (simp add: sample_env_def history_def)
  from sample_roundtrip have rt:
    "parse_item sample_env (stringify_item sample_env sample_reasoning) = Inr sample_reasoning"
    and ne: "stringify_item sample_env sample_reasoning \<noteq> []"
    by simp_all
  from thinking_replay [OF rt ne, of no_context gpt] b m h c
  have "ReplayedItem sample_reasoning \<in> set [ReplayedItem sample_reasoning]"
    by blast
  with r c show ?thesis by blast
qed

text \<open>
  Claim C9 as the specification words it, for every assistant message, fails: when the
  vendor reports failure after the reasoning item is done, the message ends in
  \<open>error\<close>, and converting a history that holds it sends no reasoning item.
\<close>

theorem thinking_replay_counterexample:
  "parse_item sample_env (stringify_item sample_env sample_reasoning) = Inr sample_reasoning
   \<and> last (es_events (streamOpenAIResponses sample_env gpt no_context (Some (call_options None))
       (wire [OutputItemAdded (Reasoning (sample_reasoning\<lparr>ri_summary := []\<rparr>)),
              OutputItemDone (Reasoning sample_reasoning), ResponseFailed])))
     = ErrorEvent ErrorR (thinking_message ErrorR (Some ''Unknown error''))
   \<and> blk_body thinking_block
     = ThinkingContent ''plan'' (Some (stringify_item sample_env sample_reasoning))
   \<and> am_content (thinking_message ErrorR (Some ''Unknown error'')) = [thinking_block]
   \<and> convertMessages sample_env gpt
        (history (thinking_message ErrorR (Some ''Unknown error''))) False = Inr []"
proof -
  have r: "last (es_events (streamOpenAIResponses sample_env gpt no_context (Some (call_options None))
       (wire [OutputItemAdded (Reasoning (sample_reasoning\<lparr>ri_summary := []\<rparr>)),
              OutputItemDone (Reasoning sample_reasoning), ResponseFailed])))
     = ErrorEvent ErrorR (thinking_message ErrorR (Some ''Unknown error''))"
    using thinking_run [of True] by simp
  have c: "convertMessages sample_env gpt
        (history (thinking_message ErrorR (Some ''Unknown error''))) False = Inr []"
    by (simp add: convertMessages_def convert_message_def convert_block_def history_def
        thinking_message_def thinking_block_def truthy_str_def sample_env_def Let_def)
  have b: "blk_body thinking_block
             = ThinkingContent ''plan'' (Some (stringify_item sample_env sample_reasoning))"
    by (simp add: thinking_block_def sample_env_def)
  have a: "am_content (thinking_message ErrorR (Some ''Unknown error'')) = [thinking_block]"
    by (simp add: thinking_message_def)
  from sample_roundtrip r c b a show ?thesis by blast
qed

end
